theory Spec2Isabelle
  imports Main
begin

section \<open>Errors and load parameters\<close>

text \<open>
  The exceptions that can leave \<open>FFmpegProducer.initialise\<close> and reach
  \<open>ProducerRegistry.createSource\<close>. \<open>InvalidProducerError\<close> is the class declared in
  producer.ts; \<open>Error\<close> is the plain JavaScript error (thrown by the source itself for an
  unsupported pixel format, or by a library call); \<open>TypeError\<close> is what the runtime raises when
  a property of \<open>undefined\<close> is read.
\<close>

datatype error =
    InvalidProducerError (message: string)
  | Error (message: string)
  | TypeError (message: string)

text \<open>\<open>err instanceof InvalidProducerError\<close>.\<close>

fun instanceof_InvalidProducerError :: "error \<Rightarrow> bool" where
  "instanceof_InvalidProducerError (InvalidProducerError m) = True"
| "instanceof_InvalidProducerError (Error m) = False"
| "instanceof_InvalidProducerError (TypeError m) = False"

text \<open>
  \<open>LoadParams\<close> as basicCmds.ts builds it: \<open>{ url, channel, loop, autoPlay, seek }\<close>, every
  field but \<open>url\<close> optional (\<open>load\<close> passes \<open>{ url }\<close> alone).
\<close>

record load_params =
  url :: string
  channel :: "int option"
  loop :: "bool option"
  autoPlay :: "bool option"
  seek :: "int option"

record chan_properties =
  videoTimebase :: "int \<times> int"

text \<open>JavaScript truthiness of a \<open>number | undefined\<close>: \<open>!x\<close> holds for \<open>undefined\<close> and for 0.\<close>

definition js_not :: "int option \<Rightarrow> bool" where
  "js_not x = (case x of None \<Rightarrow> True | Some n \<Rightarrow> n = 0)"

section \<open>ProducerRegistry.createSource\<close>

text \<open>
  A factory together with the \<open>initialise\<close> of the producer it constructs: the body of the
  \<open>try\<close> block either yields the producer or throws.
\<close>

type_synonym 'p factory = "load_params \<Rightarrow> chan_properties \<Rightarrow> error + 'p"

datatype log_line = LogProducerErr string | LogFailedToFind

text \<open>
  What one call of \<open>createSource\<close> leaves behind: \<open>outcome\<close> is \<open>Inl err\<close> for \<open>throw err\<close>,
  \<open>Inr (Some producer)\<close> for \<open>return producer\<close> and \<open>Inr None\<close> for \<open>return null\<close>;
  \<open>tried\<close> lists, in call order, the positions in \<open>producerFactories\<close> of the factories whose
  \<open>createProducer\<close>/\<open>initialise\<close> ran; \<open>producerErr\<close> is the local variable of that name at
  exit and \<open>console\<close> the lines \<open>createSource\<close> itself writes with \<open>console.log\<close>.
\<close>

record 'p created =
  outcome :: "error + 'p option"
  tried :: "nat list"
  producerErr :: string
  console :: "log_line list"

text \<open>The \<open>for (const f of this.producerFactories)\<close> loop, from position \<open>i\<close> on.\<close>

fun createSource_loop ::
  "'p factory list \<Rightarrow> load_params \<Rightarrow> chan_properties \<Rightarrow> nat \<Rightarrow> nat list \<Rightarrow> string \<Rightarrow> 'p created"
where
  "createSource_loop [] params chanProperties i tr perr =
     \<lparr>outcome = Inr None, tried = tr, producerErr = perr,
      console = (if perr \<noteq> [] then [LogProducerErr perr] else []) @ [LogFailedToFind]\<rparr>"
| "createSource_loop (f # fs) params chanProperties i tr perr =
     (case f params chanProperties of
        Inr producer \<Rightarrow>
          \<lparr>outcome = Inr (Some producer), tried = tr @ [i], producerErr = perr, console = []\<rparr>
      | Inl err \<Rightarrow>
          (if \<not> instanceof_InvalidProducerError err
           then \<lparr>outcome = Inl err, tried = tr @ [i], producerErr = message err, console = []\<rparr>
           else createSource_loop fs params chanProperties (Suc i) (tr @ [i]) (message err)))"

definition createSource :: "'p factory list \<Rightarrow> load_params \<Rightarrow> chan_properties \<Rightarrow> 'p created" where
  "createSource producerFactories params chanProperties =
     createSource_loop producerFactories params chanProperties 0 [] []"

text \<open>A factory answers with the fallback signal: it throws an \<open>InvalidProducerError\<close>.\<close>

definition not_recognized :: "'p factory \<Rightarrow> load_params \<Rightarrow> chan_properties \<Rightarrow> bool" where
  "not_recognized f params cp =
     (case f params cp of Inr p \<Rightarrow> False | Inl e \<Rightarrow> instanceof_InvalidProducerError e)"

section \<open>Streams, packets, frames\<close>

text \<open>
  The parts of beamcoder's \<open>Stream\<close>, \<open>Packet\<close> and \<open>Frame\<close> that ffmpegProducer.ts reads or
  writes. Strings stay strings (\<open>codec_type\<close>, \<open>channel_layout\<close>, \<open>format\<close>, \<open>discard\<close>), as
  the source compares them with \<open>===\<close>.
\<close>

record codecpar =
  codec_type :: string
  channel_layout :: string
  format :: string
  sample_rate :: int
  width :: int
  height :: int
  sample_aspect_ratio :: "int \<times> int"

record stream =
  index :: int
  codecpar :: codecpar
  time_base :: "int \<times> int"
  discard :: string

record packet =
  stream_index :: int
  pts :: int

text \<open>\<open>Buffer.alloc n\<close>: a zero-filled buffer of \<open>n\<close> bytes.\<close>

datatype buffer = Buffer_alloc nat

record frame =
  nb_samples :: int
  frame_format :: string
  frame_pts :: int
  frame_sample_rate :: int
  channels :: int
  frame_channel_layout :: string
  data :: "buffer list"

text \<open>
  An open demuxer: its streams, and the packets \<open>read()\<close> has still to hand out; once they
  are used up \<open>read()\<close> answers \<open>null\<close> (end of source).
\<close>

record demuxer =
  streams :: "stream list"
  unread :: "packet list"

record decoder =
  decoder_stream_index :: int

text \<open>
  The calls into beamcoder, the colour converter and the deinterlacer that
  \<open>initialise\<close> makes after the source is open. Each may throw; what it throws is an
  ordinary error, never an \<open>InvalidProducerError\<close> (a class of this repository).
\<close>

datatype lib_call =
    Seek
  | MakeDecoder int
  | AudioFilterer
  | ToRGBA_init
  | VideoFilterer
  | Yadif_init

text \<open>
  The world \<open>initialise\<close> runs in: \<open>open_demuxer url\<close> is the outcome of
  \<open>await demuxer(url)\<close> (\<open>Inl\<close> the text of what it threw), \<open>lib_error c\<close> the text
  thrown by the library call \<open>c\<close>, if it throws.
\<close>

record env =
  open_demuxer :: "string \<Rightarrow> string + demuxer"
  lib_error :: "lib_call \<Rightarrow> string option"

definition lib :: "env \<Rightarrow> lib_call \<Rightarrow> error + unit" where
  "lib e c = (case lib_error e c of None \<Rightarrow> Inr () | Some m \<Rightarrow> Inl (Error m))"

section \<open>Stream discovery (initialise, lines 74 to 95)\<close>

record discovery =
  demuxer_streams :: "stream list"
  audioStreams :: "stream list"
  videoStreams :: "stream list"
  audioIndexes :: "int list"
  videoIndexes :: "int list"
  decoders :: "int \<rightharpoonup> decoder"

definition numAudChannels :: nat where
  "numAudChannels = 8"

definition numVidChannels :: nat where
  "numVidChannels = 1"

text \<open>
  The state before the \<open>forEach\<close>: four empty arrays and an empty \<open>Map\<close>.
  \<open>demuxer_streams\<close> collects the streams of the demuxer as the callback leaves them
  (it assigns \<open>s.discard\<close> in place).
\<close>

definition discovery_init :: discovery where
  "discovery_init =
     \<lparr>demuxer_streams = [], audioStreams = [], videoStreams = [],
      audioIndexes = [], videoIndexes = [], decoders = Map.empty\<rparr>"

text \<open>The callback of \<open>this.demuxer.streams.forEach\<close>; \<open>decoder(...)\<close> may throw.\<close>

definition discover_step :: "env \<Rightarrow> discovery \<Rightarrow> stream \<Rightarrow> error + discovery" where
  "discover_step e d s =
     (if codec_type (codecpar s) = ''audio'' \<and> length (audioStreams d) < numAudChannels then
        (let s' = s\<lparr>discard := ''default''\<rparr> in
         case lib e (MakeDecoder (index s')) of
           Inl err \<Rightarrow> Inl err
         | Inr u \<Rightarrow>
             Inr (d\<lparr>demuxer_streams := demuxer_streams d @ [s'],
                    audioStreams := audioStreams d @ [s'],
                    audioIndexes := audioIndexes d @ [index s'],
                    decoders := (decoders d)(index s' \<mapsto> \<lparr>decoder_stream_index = index s'\<rparr>)\<rparr>))
      else if codec_type (codecpar s) = ''video'' \<and> length (videoStreams d) < numVidChannels then
        (let s' = s\<lparr>discard := ''default''\<rparr> in
         case lib e (MakeDecoder (index s')) of
           Inl err \<Rightarrow> Inl err
         | Inr u \<Rightarrow>
             Inr (d\<lparr>demuxer_streams := demuxer_streams d @ [s'],
                    videoStreams := videoStreams d @ [s'],
                    videoIndexes := videoIndexes d @ [index s'],
                    decoders := (decoders d)(index s' \<mapsto> \<lparr>decoder_stream_index = index s'\<rparr>)\<rparr>))
      else
        Inr (d\<lparr>demuxer_streams := demuxer_streams d @ [s\<lparr>discard := ''all''\<rparr>]\<rparr>))"

fun discover :: "env \<Rightarrow> discovery \<Rightarrow> stream list \<Rightarrow> error + discovery" where
  "discover e d [] = Inr d"
| "discover e d (s # ss) =
     (case discover_step e d s of Inl err \<Rightarrow> Inl err | Inr d' \<Rightarrow> discover e d' ss)"

subsection \<open>Reading stream discovery\<close>

text \<open>
  The two tests of the callback on \<open>codec_type\<close>, and the assignment
  \<open>s.discard = 'default'\<close> it makes to a stream it selects.
\<close>

definition is_audio :: "stream \<Rightarrow> bool" where
  "is_audio s = (codec_type (codecpar s) = ''audio'')"

definition is_video :: "stream \<Rightarrow> bool" where
  "is_video s = (codec_type (codecpar s) = ''video'')"

definition keep :: "stream \<Rightarrow> stream" where
  "keep s = s\<lparr>discard := ''default''\<rparr>"

section \<open>The audio path (initialise, lines 97 to 162)\<close>

text \<open>
  One entry of \<open>inputParams\<close> or \<open>outputParams\<close> of an audio filterer; a field the object
  literal leaves out, or sets to \<open>undefined\<close>, is \<open>None\<close>.
\<close>

record audio_param =
  name :: string
  timeBase :: "(int \<times> int) option"
  sampleRate :: int
  sampleFormat :: string
  channelLayout :: "string option"

record audio_filterer =
  inputParams :: "audio_param list"
  outputParams :: "audio_param list"
  filterSpec :: string

text \<open>Decimal digits of a number, as a template literal prints an index or a length.\<close>

fun string_of_nat :: "nat \<Rightarrow> string" where
  "string_of_nat n =
     (if n < 10 then [''0123456789'' ! n]
      else string_of_nat (n div 10) @ [''0123456789'' ! (n mod 10)])"

definition audLayout :: string where
  "audLayout = string_of_nat numAudChannels @ ''c''"

definition audChanNames :: "string list" where
  "audChanNames = [''FL'', ''FR'', ''FC'', ''SL'', ''SR'', ''LFE'', ''BL'', ''BR'']"

text \<open>\<open>xs[i]\<close> of a JavaScript array: \<open>undefined\<close> out of range.\<close>

definition js_index :: "'a list \<Rightarrow> nat \<Rightarrow> 'a option" where
  "js_index xs i = (if i < length xs then Some (xs ! i) else None)"

definition allMono :: "stream list \<Rightarrow> bool" where
  "allMono auds = list_all (\<lambda>s. channel_layout (codecpar s) = ''mono'') auds"

text \<open>The callback of \<open>audioStreams.map\<close> at position \<open>i\<close>, with \<open>audStream = audioStreams[0]\<close>.\<close>

definition inParam :: "stream list \<Rightarrow> stream \<Rightarrow> nat \<Rightarrow> audio_param" where
  "inParam auds audStream i =
     \<lparr>name = ''in'' @ string_of_nat i @ '':a'',
      timeBase = Some (time_base audStream),
      sampleRate = sample_rate (codecpar audStream),
      sampleFormat = format (codecpar audStream),
      channelLayout =
        (if allMono auds then js_index audChanNames i
         else Some (channel_layout (codecpar audStream)))\<rparr>"

definition inParams :: "stream list \<Rightarrow> stream \<Rightarrow> audio_param list" where
  "inParams auds audStream =
     map (inParam auds audStream) [0 ..< length auds]"

definition inStr :: "stream list \<Rightarrow> string" where
  "inStr auds =
     concat (map (\<lambda>i. ''[in'' @ string_of_nat i @ '':a]'') [0 ..< length auds])"

definition out0 :: audio_param where
  "out0 = \<lparr>name = ''out0:a'', timeBase = None, sampleRate = 48000, sampleFormat = ''s32'',
           channelLayout = Some audLayout\<rparr>"

text \<open>The filterer built when \<open>audioStreams[0]\<close> exists.\<close>

definition merge_filterer :: "stream list \<Rightarrow> stream \<Rightarrow> audio_filterer" where
  "merge_filterer auds audStream =
     \<lparr>inputParams = inParams auds audStream,
      outputParams = [out0],
      filterSpec = inStr auds @ '' amerge=inputs='' @ string_of_nat (length auds)
        @ '', asetnsamples=n=1024:p=1 [out0:a]''\<rparr>"

text \<open>The \<open>else\<close> branch: the silent frame and the filterer it is run through.\<close>

definition silent_frame :: frame where
  "silent_frame =
     \<lparr>nb_samples = 1024, frame_format = ''s32'', frame_pts = 0, frame_sample_rate = 48000,
      channels = int numAudChannels, frame_channel_layout = audLayout,
      data = [Buffer_alloc (1024 * numAudChannels * 4)]\<rparr>"

definition silence_filterer :: audio_filterer where
  "silence_filterer =
     \<lparr>inputParams =
        [\<lparr>name = ''in0:a'', timeBase = Some (1, 48000), sampleRate = 48000,
          sampleFormat = ''s32'', channelLayout = Some audLayout\<rparr>],
      outputParams = [out0],
      filterSpec = ''[in0:a] asetpts=N/SR/TB [out0:a]''\<rparr>"

text \<open>
  Lines 97 to 162 as a whole: the pair \<open>(silentFrame, audFilterer)\<close>, or the error of
  \<open>await filterer(...)\<close>.
\<close>

definition audio_path :: "env \<Rightarrow> stream list \<Rightarrow> error + (frame option \<times> audio_filterer)" where
  "audio_path e auds =
     (case auds of
        audStream # rest \<Rightarrow>
          (case lib e AudioFilterer of
             Inl err \<Rightarrow> Inl err
           | Inr u \<Rightarrow> Inr (None, merge_filterer auds audStream))
      | [] \<Rightarrow>
          (case lib e AudioFilterer of
             Inl err \<Rightarrow> Inl err
           | Inr u \<Rightarrow> Inr (Some silent_frame, silence_filterer)))"

section \<open>The video path (initialise, lines 165 to 230)\<close>

datatype reader =
    yuv422p8Reader int int
  | yuv422p10Reader int int
  | v210Reader int int
  | rgba8Reader int int
  | bgra8Reader int int

text \<open>\<open>new ToRGBA(clContext, colSpecRead, colSpecWrite, reader)\<close>.\<close>

datatype to_rgba = ToRGBA string string reader

text \<open>\<open>s.includes(sub)\<close> on strings: \<open>sub\<close> occurs in \<open>s\<close> as a contiguous run.\<close>

fun starts_with :: "string \<Rightarrow> string \<Rightarrow> bool" where
  "starts_with s [] = True"
| "starts_with [] (c # cs) = False"
| "starts_with (x # xs) (c # cs) = (x = c \<and> starts_with xs cs)"

fun str_includes :: "string \<Rightarrow> string \<Rightarrow> bool" where
  "str_includes [] sub = (sub = [])"
| "str_includes (x # xs) sub = (starts_with (x # xs) sub \<or> str_includes xs sub)"

text \<open>
  The \<open>case\<close> labels of the switch, and the text of the error its \<open>default\<close> branch
  throws.
\<close>

definition native_formats :: "string list" where
  "native_formats = [''yuv422p'', ''yuv422p10le'', ''v210'', ''rgba'', ''bgra'']"

definition unsupported_message :: "string \<Rightarrow> string" where
  "unsupported_message fmt =
     ''Unsupported video format '' @ [CHR 0x27] @ fmt @ [CHR 0x27] @ '' from FFmpeg decoder''"

text \<open>
  The \<open>switch (vidStream.codecpar.format)\<close>: the converter and \<open>filterOutputFormat\<close>, which
  starts as the stream's own format, or the thrown \<open>Error\<close>.
\<close>

definition format_switch :: "string \<Rightarrow> int \<Rightarrow> int \<Rightarrow> error + (to_rgba \<times> string)" where
  "format_switch fmt w h =
     (if fmt = ''yuv422p'' then Inr (ToRGBA ''709'' ''709'' (yuv422p8Reader w h), fmt)
      else if fmt = ''yuv422p10le'' then Inr (ToRGBA ''709'' ''709'' (yuv422p10Reader w h), fmt)
      else if fmt = ''v210'' then Inr (ToRGBA ''709'' ''709'' (v210Reader w h), fmt)
      else if fmt = ''rgba'' then Inr (ToRGBA ''709'' ''709'' (rgba8Reader w h), fmt)
      else if fmt = ''bgra'' then Inr (ToRGBA ''709'' ''709'' (bgra8Reader w h), fmt)
      else if str_includes fmt ''yuv'' then
        Inr (ToRGBA ''709'' ''709'' (yuv422p10Reader w h), ''yuv422p10le'')
      else if str_includes fmt ''rgb'' then
        Inr (ToRGBA ''709'' ''709'' (rgba8Reader w h), ''rgba'')
      else
        Inl (Error (unsupported_message fmt)))"

text \<open>
  The video filterer's parameters. Its \<open>filterSpec\<close> is
  \<open>fps=fps=${chanTb[1] / 2}/${chanTb[0]}\<close>; the record keeps \<open>chanTb\<close> itself.
\<close>

record video_filterer =
  in_timeBase :: "int \<times> int"
  in_width :: int
  in_height :: int
  in_pixelFormat :: string
  in_pixelAspect :: "int \<times> int"
  out_pixelFormat :: string
  chanTb :: "int \<times> int"

text \<open>\<open>new Yadif(clContext, width, height, 'send_field', 'tff', 'all')\<close>.\<close>

record yadif =
  yadif_width :: int
  yadif_height :: int
  yadif_mode :: string
  yadif_parity :: string
  yadif_deint :: string

record video_setup =
  toRGBA :: "to_rgba option"
  filterOutputFormat :: string
  vidFilterer :: video_filterer
  yadif :: "yadif option"

text \<open>
  \<open>videoStreams[0]\<close> is \<open>undefined\<close> for an empty array, and reading \<open>.codecpar\<close> of it
  raises a \<open>TypeError\<close>.
\<close>

definition video_path :: "env \<Rightarrow> chan_properties \<Rightarrow> stream list \<Rightarrow> error + video_setup" where
  "video_path e chanProperties vids =
     (case vids of
        [] \<Rightarrow> Inl (TypeError ''Cannot read property codecpar of undefined'')
      | vidStream # rest \<Rightarrow>
          (let w = width (codecpar vidStream); h = height (codecpar vidStream) in
           case format_switch (format (codecpar vidStream)) w h of
             Inl err \<Rightarrow> Inl err
           | Inr (conv, fof) \<Rightarrow>
               (case lib e ToRGBA_init of
                  Inl err \<Rightarrow> Inl err
                | Inr u \<Rightarrow>
                    (case lib e VideoFilterer of
                       Inl err \<Rightarrow> Inl err
                     | Inr u \<Rightarrow>
                         (case lib e Yadif_init of
                            Inl err \<Rightarrow> Inl err
                          | Inr u \<Rightarrow>
                              Inr \<lparr>toRGBA = Some conv,
                                   filterOutputFormat = fof,
                                   vidFilterer =
                                     \<lparr>in_timeBase = time_base vidStream, in_width = w,
                                      in_height = h,
                                      in_pixelFormat = format (codecpar vidStream),
                                      in_pixelAspect = sample_aspect_ratio (codecpar vidStream),
                                      out_pixelFormat = fof,
                                      chanTb = videoTimebase chanProperties\<rparr>,
                                   yadif =
                                     Some \<lparr>yadif_width = w, yadif_height = h,
                                           yadif_mode = ''send_field'', yadif_parity = ''tff'',
                                           yadif_deint = ''all''\<rparr>\<rparr>)))))"

section \<open>FFmpegProducer\<close>

text \<open>
  Which generator heads the audio leg (lines 379 to 389): the fork of the demuxed packets
  when \<open>audioStreams.length\<close> is not zero, the \<open>silence\<close> generator otherwise.
\<close>

datatype generator = Demux | Silence

text \<open>
  What the stage closures capture from \<open>initialise\<close>. \<open>audFilterer\<close> is assigned in both
  branches of the audio path and never again, so it is not \<open>null\<close> in any stage.
\<close>

record stages =
  disc :: discovery
  silentFrame :: "frame option"
  audFilterer :: audio_filterer
  video :: video_setup
  audSource :: generator

text \<open>
  The object: its private fields, and \<open>pipes\<close>, which is \<open>None\<close> as long as \<open>audSource\<close> and
  \<open>vidSource\<close> are \<open>undefined\<close>.
\<close>

record ffmpeg_producer =
  loadParams :: load_params
  demuxer :: "demuxer option"
  running :: bool
  paused :: bool
  pipes :: "stages option"

definition createProducer :: "load_params \<Rightarrow> ffmpeg_producer" where
  "createProducer lp =
     \<lparr>loadParams = lp, demuxer = None, running = True, paused = False, pipes = None\<rparr>"

text \<open>
  \<open>initialise\<close>. Only the failure of \<open>demuxer(url)\<close> is wrapped in an
  \<open>InvalidProducerError\<close>; everything after the \<open>try\<close> block throws what it throws.
  \<open>reposition\<close> stands for the effect of \<open>demuxer.seek\<close> on what will be read.
\<close>

definition initialise ::
  "env \<Rightarrow> (int \<Rightarrow> packet list \<Rightarrow> packet list) \<Rightarrow> chan_properties \<Rightarrow> ffmpeg_producer
   \<Rightarrow> error + ffmpeg_producer"
where
  "initialise e reposition chanProperties p =
     (case open_demuxer e (url (loadParams p)) of
        Inl err \<Rightarrow> Inl (InvalidProducerError err)
      | Inr dm \<Rightarrow>
          (case (if \<not> js_not (seek (loadParams p)) then lib e Seek else Inr ()) of
             Inl err \<Rightarrow> Inl err
           | Inr u \<Rightarrow>
               (case discover e discovery_init (streams dm) of
                  Inl err \<Rightarrow> Inl err
                | Inr d \<Rightarrow>
                    (case audio_path e (audioStreams d) of
                       Inl err \<Rightarrow> Inl err
                     | Inr (sf, af) \<Rightarrow>
                         (case video_path e chanProperties (videoStreams d) of
                            Inl err \<Rightarrow> Inl err
                          | Inr v \<Rightarrow>
                              Inr (p\<lparr>demuxer :=
                                       Some \<lparr>streams = demuxer_streams d,
                                             unread =
                                               (case seek (loadParams p) of
                                                  None \<Rightarrow> unread dm
                                                | Some t \<Rightarrow>
                                                    if t = 0 then unread dm
                                                    else reposition t (unread dm))\<rparr>,
                                     pipes :=
                                       Some \<lparr>disc = d, silentFrame = sf, audFilterer = af,
                                             video = v,
                                             audSource =
                                               (if length (audioStreams d) \<noteq> 0 then Demux
                                                else Silence)\<rparr>\<rparr>))))))"

definition setPaused :: "bool \<Rightarrow> ffmpeg_producer \<Rightarrow> ffmpeg_producer" where
  "setPaused pause p = p\<lparr>paused := pause\<rparr>"

definition release :: "ffmpeg_producer \<Rightarrow> ffmpeg_producer" where
  "release p = p\<lparr>running := False\<rparr>"

text \<open>
  The registry of producer.ts: the Macadam factory first, then the FFmpeg one. The Macadam
  producer is not part of these sources and is a parameter.
\<close>

datatype 'm producer = MacadamProducer 'm | FFmpegProducer ffmpeg_producer

definition FFmpegProducerFactory ::
  "env \<Rightarrow> (int \<Rightarrow> packet list \<Rightarrow> packet list) \<Rightarrow> 'm producer factory" where
  "FFmpegProducerFactory e reposition params chanProperties =
     (case initialise e reposition chanProperties (createProducer params) of
        Inl err \<Rightarrow> Inl err
      | Inr p \<Rightarrow> Inr (FFmpegProducer p))"

definition producerFactories ::
  "'m producer factory \<Rightarrow> env \<Rightarrow> (int \<Rightarrow> packet list \<Rightarrow> packet list) \<Rightarrow> 'm producer factory list"
where
  "producerFactories macadam e reposition = [macadam, FFmpegProducerFactory e reposition]"

section \<open>The stages\<close>

text \<open>
  What a redioactive generator or valve hands on: a value, \<open>end\<close> (the terminal marker) or
  \<open>nil\<close> (nothing this time). \<open>isValue\<close> holds of the first only.
\<close>

datatype 'a redio = Value 'a | RedioEnd | RedioNil

text \<open>
  What reaches the next stage from a \<open>oneToMany\<close> valve: the elements of a returned array
  one by one, nothing for \<open>nil\<close>; \<open>end\<close> closes the stream.
\<close>

fun forwarded :: "'a list redio \<Rightarrow> 'a list" where
  "forwarded (Value xs) = xs"
| "forwarded RedioEnd = []"
| "forwarded RedioNil = []"

subsection \<open>demux (lines 232 to 273)\<close>

text \<open>The locals of one call of the generator that the \<open>do ... while\<close> loop updates.\<close>

record dstate =
  lastAudTimestamp :: "int option"
  lastVidTimestamp :: "int option"
  packets :: "packet list"
  doBreak :: bool

definition demux_start :: dstate where
  "demux_start =
     \<lparr>lastAudTimestamp = None, lastVidTimestamp = None, packets = [], doBreak = False\<rparr>"

text \<open>Lines 245 to 253: what one packet that was read does to the locals.\<close>

definition demux_accept :: "discovery \<Rightarrow> dstate \<Rightarrow> packet \<Rightarrow> dstate" where
  "demux_accept d s packet =
     (if stream_index packet \<in> set (audioIndexes d) then
        (if js_not (lastAudTimestamp s) then s\<lparr>lastAudTimestamp := Some (pts packet)\<rparr>
         else if Some (pts packet) \<noteq> lastAudTimestamp s then s\<lparr>doBreak := True\<rparr>
         else s)
        \<lparr>packets := packets s @ [packet]\<rparr>
      else if stream_index packet \<in> set (videoIndexes d) then
        (if js_not (lastVidTimestamp s) then s\<lparr>lastVidTimestamp := Some (pts packet)\<rparr>
         else if Some (pts packet) \<noteq> lastVidTimestamp s then s\<lparr>doBreak := True\<rparr>
         else s)
        \<lparr>packets := packets s @ [packet]\<rparr>
      else s)"

text \<open>Line 255: the condition under which the batch is handed on.\<close>

definition demux_done :: "discovery \<Rightarrow> dstate \<Rightarrow> bool" where
  "demux_done d s =
     (doBreak s \<or> length (packets s) = length (audioStreams d) + length (videoStreams d))"

text \<open>
  The result of one call: what the generator returns, what is left to read, and the
  mismatch line written to the console, as (packets sent, packets expected).
\<close>

record demux_result =
  result :: "packet list redio"
  remaining :: "packet list"
  mismatch_logged :: "(nat \<times> nat) option"

text \<open>
  The \<open>do ... while (!doneSet)\<close> loop over what \<open>read()\<close> yields: the packets in order, then
  \<open>null\<close>.
\<close>

fun demux_loop :: "discovery \<Rightarrow> dstate \<Rightarrow> packet list \<Rightarrow> demux_result" where
  "demux_loop d s [] = \<lparr>result = RedioEnd, remaining = [], mismatch_logged = None\<rparr>"
| "demux_loop d s (packet # src) =
     (let s' = demux_accept d s packet in
      if demux_done d s' then
        \<lparr>result = Value (packets s'), remaining = src,
         mismatch_logged =
           (if doBreak s'
            then Some (length (packets s'), length (audioStreams d) + length (videoStreams d))
            else None)\<rparr>
      else demux_loop d s' src)"

text \<open>The generator: \<open>if (this.demuxer && this.running) ... else this.demuxer = null\<close>.\<close>

definition demux :: "discovery \<Rightarrow> ffmpeg_producer \<Rightarrow> demux_result \<times> ffmpeg_producer" where
  "demux d p =
     (case demuxer p of
        Some dm \<Rightarrow>
          if running p then
            (let r = demux_loop d demux_start (unread dm) in
             (r, p\<lparr>demuxer := Some (dm\<lparr>unread := remaining r\<rparr>)\<rparr>))
          else
            (\<lparr>result = RedioEnd, remaining = unread dm, mismatch_logged = None\<rparr>,
             p\<lparr>demuxer := None\<rparr>)
      | None \<Rightarrow>
          (\<lparr>result = RedioEnd, remaining = [], mismatch_logged = None\<rparr>, p\<lparr>demuxer := None\<rparr>))"

text \<open>The two packet filters at the head of the legs.\<close>

definition audPacketFilter :: "discovery \<Rightarrow> packet list redio \<Rightarrow> packet list redio" where
  "audPacketFilter d x =
     (case x of
        Value ps \<Rightarrow> Value (filter (\<lambda>p. stream_index p \<in> set (audioIndexes d)) ps)
      | RedioEnd \<Rightarrow> RedioEnd
      | RedioNil \<Rightarrow> RedioNil)"

definition vidPacketFilter :: "discovery \<Rightarrow> packet list redio \<Rightarrow> packet list redio" where
  "vidPacketFilter d x =
     (case x of
        Value ps \<Rightarrow> Value (filter (\<lambda>p. stream_index p \<in> set (videoIndexes d)) ps)
      | RedioEnd \<Rightarrow> RedioEnd
      | RedioNil \<Rightarrow> RedioNil)"

subsection \<open>The audio leg of a source without audio (lines 294 to 305, 387 to 388)\<close>

record audio_channel =
  chan_name :: string
  frames :: "frame option list"

text \<open>
  The \<open>silence\<close> generator. It is a closure of the producer like \<open>demux\<close>, so the producer is
  an argument; the body reads neither \<open>this.running\<close> nor \<open>this.demuxer\<close>.
\<close>

definition silence :: "stages \<Rightarrow> ffmpeg_producer \<Rightarrow> audio_channel list redio" where
  "silence st p = Value [\<lparr>chan_name = ''in0:a'', frames = [silentFrame st]\<rparr>]"

text \<open>
  \<open>audFilter\<close>; \<open>filt\<close> is what \<open>audFilterer.filter\<close> answers as \<open>ff[0].frames\<close> for the
  groups it is given.
\<close>

definition audFilter ::
  "(audio_channel list \<Rightarrow> frame list) \<Rightarrow> audio_channel list redio \<Rightarrow> frame list redio" where
  "audFilter filt x =
     (case x of
        Value groups \<Rightarrow> (let ff0 = filt groups in if length ff0 > 0 then Value ff0 else RedioNil)
      | RedioEnd \<Rightarrow> RedioEnd
      | RedioNil \<Rightarrow> RedioNil)"

text \<open>
  One pull through \<open>redio(silence, ...).valve(audFilter, { oneToMany: true })\<close>: the frames
  that reach the consumer of \<open>getSourceAudio()\<close>.
\<close>

definition silent_audSource ::
  "(audio_channel list \<Rightarrow> frame list) \<Rightarrow> stages \<Rightarrow> ffmpeg_producer \<Rightarrow> frame list redio" where
  "silent_audSource filt st p = audFilter filt (silence st p)"

subsection \<open>vidDeint (lines 363 to 375)\<close>

record cl_buffer =
  timestamp :: int
  released :: bool

text \<open>
  What one call of \<open>vidDeint\<close> does: \<open>out\<close> is the returned value, \<open>input_after\<close> the input
  buffer as the stage leaves it, \<open>yadif_after\<close> the captured variable \<open>yadif\<close> afterwards, and
  \<open>yadif_released\<close> whether \<open>yadif.release()\<close> ran.
\<close>

record 'y deint_result =
  out :: "cl_buffer list redio"
  input_after :: "cl_buffer option"
  yadif_after :: "'y option"
  yadif_released :: bool

text \<open>
  \<open>processFrame y frame\<close> is the deinterlacer (process/yadif, not part of these sources):
  the buffers it pushes onto the list it is given, and its state afterwards.
  \<open>yadif?.processFrame\<close> does nothing when \<open>yadif\<close> is \<open>null\<close>.
\<close>

definition vidDeint ::
  "('y \<Rightarrow> cl_buffer \<Rightarrow> cl_buffer list \<times> 'y) \<Rightarrow> 'y option \<Rightarrow> cl_buffer redio \<Rightarrow> 'y deint_result"
where
  "vidDeint processFrame y x =
     (case x of
        Value frame \<Rightarrow>
          (let (yadifDests, y') =
                 (case y of
                    None \<Rightarrow> ([], None)
                  | Some yd \<Rightarrow> (let (pushed, yd') = processFrame yd frame in ([] @ pushed, Some yd')))
           in \<lparr>out = (if length yadifDests > 1 then Value yadifDests else RedioNil),
               input_after = Some (frame\<lparr>released := True\<rparr>),
               yadif_after = y',
               yadif_released = False\<rparr>)
      | RedioEnd \<Rightarrow>
          \<lparr>out = RedioEnd, input_after = None, yadif_after = None,
           yadif_released = (y \<noteq> None)\<rparr>
      | RedioNil \<Rightarrow>
          \<lparr>out = RedioNil, input_after = None, yadif_after = None,
           yadif_released = (y \<noteq> None)\<rparr>)"

subsection \<open>Reading the demux loop packet by packet\<close>

text \<open>A packet the loop pushes onto \<open>packets\<close>: its stream index is in one of the index arrays.\<close>

definition selected :: "discovery \<Rightarrow> packet \<Rightarrow> bool" where
  "selected d p =
     (stream_index p \<in> set (audioIndexes d) \<or> stream_index p \<in> set (videoIndexes d))"

text \<open>The locals after the packets \<open>ps\<close> have gone through lines 245 to 253 in turn.\<close>

definition demux_after :: "discovery \<Rightarrow> dstate \<Rightarrow> packet list \<Rightarrow> dstate" where
  "demux_after d s ps = foldl (demux_accept d) s ps"

text \<open>The condition of line 255 holds once the packets up to position \<open>n\<close> have been read.\<close>

definition batch_due :: "discovery \<Rightarrow> dstate \<Rightarrow> packet list \<Rightarrow> nat \<Rightarrow> bool" where
  "batch_due d s src n = demux_done d (demux_after d s (take (Suc n) src))"

text \<open>
  The batch rule stated on the packets read, without the loop's locals: the packets of
  each leg in read order (a stream index listed as audio counts as audio, as the
  \<open>else if\<close> has it), whether a list holds a packet whose timestamp differs from that of
  its first packet, and whether that is so for one of the two legs. \<open>first_pts\<close> is the
  timestamp of the first packet of a list, if there is one.
\<close>

definition aud_packets :: "discovery \<Rightarrow> packet list \<Rightarrow> packet list" where
  "aud_packets d ps = filter (\<lambda>p. stream_index p \<in> set (audioIndexes d)) ps"

definition vid_packets :: "discovery \<Rightarrow> packet list \<Rightarrow> packet list" where
  "vid_packets d ps =
     filter (\<lambda>p. stream_index p \<notin> set (audioIndexes d) \<and> stream_index p \<in> set (videoIndexes d)) ps"

fun differs_from_first :: "packet list \<Rightarrow> bool" where
  "differs_from_first [] = False"
| "differs_from_first (q # rest) = list_ex (\<lambda>p. pts p \<noteq> pts q) rest"

definition leg_mismatch :: "discovery \<Rightarrow> packet list \<Rightarrow> bool" where
  "leg_mismatch d ps = (differs_from_first (aud_packets d ps) \<or> differs_from_first (vid_packets d ps))"

definition first_pts :: "packet list \<Rightarrow> int option" where
  "first_pts qs = (case qs of [] \<Rightarrow> None | q # rest \<Rightarrow> Some (pts q))"

section \<open>Statements of the specification, in its own words\<close>

text \<open>
  "It contains one packet per every selected stream (a complete instant)": every selected
  stream index occurs exactly once among the stream indexes of the batch.
\<close>

definition spec_complete_instant :: "discovery \<Rightarrow> packet list \<Rightarrow> bool" where
  "spec_complete_instant d batch =
     list_all (\<lambda>i. count_list (map stream_index batch) i = 1) (audioIndexes d @ videoIndexes d)"

text \<open>
  "A timestamp mismatch": two packets of the batch carry different presentation timestamps.
\<close>

definition spec_timestamp_mismatch :: "packet list \<Rightarrow> bool" where
  "spec_timestamp_mismatch batch = (length (remdups (map pts batch)) > 1)"

text \<open>
  "A timestamp mismatch between the running audio and video timestamps": an audio packet
  and a video packet of the batch carry different presentation timestamps.
\<close>

definition spec_av_mismatch :: "discovery \<Rightarrow> packet list \<Rightarrow> bool" where
  "spec_av_mismatch d batch =
     list_ex (\<lambda>a. list_ex (\<lambda>v. pts a \<noteq> pts v) (vid_packets d batch)) (aud_packets d batch)"

section \<open>Concrete inputs\<close>

definition lp0 :: load_params where
  "lp0 = \<lparr>url = ''clip.mxf'', channel = None, loop = None, autoPlay = None, seek = None\<rparr>"

definition cp0 :: chan_properties where
  "cp0 = \<lparr>videoTimebase = (1, 50)\<rparr>"

text \<open>Three factories: one that does not recognise the source, one that opens it, one that breaks.\<close>

definition f_unrecognized :: "nat factory" where
  "f_unrecognized lp cp = Inl (InvalidProducerError ''no device'')"

definition f_opens :: "nat factory" where
  "f_opens lp cp = Inr 7"

definition f_breaks :: "nat factory" where
  "f_breaks lp cp = Inl (Error ''boom'')"

text \<open>Streams as a demuxer lists them, and packets.\<close>

definition aud_stream :: "int \<Rightarrow> string \<Rightarrow> stream" where
  "aud_stream i layout =
     \<lparr>index = i,
      codecpar = \<lparr>codec_type = ''audio'', channel_layout = layout, format = ''s16'',
                  sample_rate = 48000, width = 0, height = 0, sample_aspect_ratio = (0, 1)\<rparr>,
      time_base = (1, 48000), discard = ''default''\<rparr>"

definition vid_stream :: "int \<Rightarrow> string \<Rightarrow> stream" where
  "vid_stream i fmt =
     \<lparr>index = i,
      codecpar = \<lparr>codec_type = ''video'', channel_layout = [], format = fmt,
                  sample_rate = 0, width = 1920, height = 1080, sample_aspect_ratio = (1, 1)\<rparr>,
      time_base = (1, 25), discard = ''default''\<rparr>"

definition pkt :: "int \<Rightarrow> int \<Rightarrow> packet" where
  "pkt i t = \<lparr>stream_index = i, pts = t\<rparr>"

text \<open>A world in which no library call throws, with one source behind every locator.\<close>

definition env_of :: "stream list \<Rightarrow> packet list \<Rightarrow> env" where
  "env_of ss ps =
     \<lparr>open_demuxer = (\<lambda>u. Inr \<lparr>streams = ss, unread = ps\<rparr>), lib_error = (\<lambda>c. None)\<rparr>"

text \<open>What discovery finds in a file with video stream 0 and audio stream 1.\<close>

definition d_av :: discovery where
  "d_av =
     \<lparr>demuxer_streams = [vid_stream 0 ''yuv422p'', aud_stream 1 ''stereo''],
      audioStreams = [aud_stream 1 ''stereo''],
      videoStreams = [vid_stream 0 ''yuv422p''],
      audioIndexes = [1],
      videoIndexes = [0],
      decoders = [0 \<mapsto> \<lparr>decoder_stream_index = 0\<rparr>, 1 \<mapsto> \<lparr>decoder_stream_index = 1\<rparr>]\<rparr>"

text \<open>The same with two audio streams, 1 and 2.\<close>

definition d_aav :: discovery where
  "d_aav =
     \<lparr>demuxer_streams = [vid_stream 0 ''yuv422p'', aud_stream 1 ''mono'', aud_stream 2 ''mono''],
      audioStreams = [aud_stream 1 ''mono'', aud_stream 2 ''mono''],
      videoStreams = [vid_stream 0 ''yuv422p''],
      audioIndexes = [1, 2],
      videoIndexes = [0],
      decoders = [0 \<mapsto> \<lparr>decoder_stream_index = 0\<rparr>, 1 \<mapsto> \<lparr>decoder_stream_index = 1\<rparr>,
                  2 \<mapsto> \<lparr>decoder_stream_index = 2\<rparr>]\<rparr>"

text \<open>What discovery finds in a file with one audio stream and no video.\<close>

definition d_a :: discovery where
  "d_a =
     \<lparr>demuxer_streams = [aud_stream 0 ''stereo''],
      audioStreams = [aud_stream 0 ''stereo''],
      videoStreams = [],
      audioIndexes = [0],
      videoIndexes = [],
      decoders = [0 \<mapsto> \<lparr>decoder_stream_index = 0\<rparr>]\<rparr>"

text \<open>A subtitle stream, and a file with nine audio, two video and one subtitle stream.\<close>

definition other_stream :: "int \<Rightarrow> stream" where
  "other_stream i = (aud_stream i [])\<lparr>codecpar := (codecpar (aud_stream i []))\<lparr>codec_type := ''subtitle''\<rparr>\<rparr>"

definition crowded :: "stream list" where
  "crowded = map (\<lambda>i. aud_stream i ''mono'') [0, 1, 2, 3, 4, 5, 6, 7, 8] @
             [vid_stream 9 ''yuv422p'', vid_stream 10 ''rgba'', other_stream 11]"

text \<open>
  Two stand-ins for the Macadam factory: one that finds no device and signals it with an
  \<open>InvalidProducerError\<close>, one that opens a device.
\<close>

definition macadam_absent :: "unit producer factory" where
  "macadam_absent lp cp = Inl (InvalidProducerError ''no such device'')"

definition macadam_present :: "unit producer factory" where
  "macadam_present lp cp = Inr (MacadamProducer ())"

text \<open>
  The producer \<open>initialise\<close> leaves behind for a source, with the stages it wired, when
  it returns; seeking does not change what is read.
\<close>

definition opened :: "env \<Rightarrow> load_params \<Rightarrow> chan_properties \<Rightarrow> (ffmpeg_producer \<times> stages) option" where
  "opened e lp cp =
     (case initialise e (\<lambda>t ps. ps) cp (createProducer lp) of
        Inl err \<Rightarrow> None
      | Inr p \<Rightarrow> (case pipes p of None \<Rightarrow> None | Some st \<Rightarrow> Some (p, st)))"

text \<open>A file with one video stream, three video packets and no audio.\<close>

definition video_only :: env where
  "video_only = env_of [vid_stream 0 ''yuv422p''] [pkt 0 0, pkt 0 1, pkt 0 2]"

text \<open>
  An audio filterer that hands on the frames of its first input as they come, as the
  graph \<open>[in0:a] asetpts=N/SR/TB [out0:a]\<close> does with their samples.
\<close>

definition pass_through :: "audio_channel list \<Rightarrow> frame list" where
  "pass_through groups = (case groups of [] \<Rightarrow> [] | g # rest \<Rightarrow> concat (map (\<lambda>f. case f of None \<Rightarrow> [] | Some x \<Rightarrow> [x]) (frames g)))"

text \<open>A live GPU buffer, and a deinterlacer that pushes one buffer for each frame.\<close>

definition buf :: "int \<Rightarrow> cl_buffer" where
  "buf t = \<lparr>timestamp = t, released = False\<rparr>"

definition one_field :: "unit \<Rightarrow> cl_buffer \<Rightarrow> cl_buffer list \<times> unit" where
  "one_field y frame = ([buf (timestamp frame)], y)"

section \<open>Properties of createSource\<close>

lemma upt_from_here: "[i ..< Suc (i + n)] = i # [Suc i ..< Suc (i + n)]"
  by (simp add: upt_conv_Cons del: upt_Suc)

text \<open>
  Factories that answer with an \<open>InvalidProducerError\<close> are passed over one after the other;
  the loop reaches what follows them with the last message in \<open>producerErr\<close>.
\<close>

lemma createSource_loop_prefix:
  "list_all (\<lambda>f. not_recognized f params cp) pre \<Longrightarrow>
   createSource_loop (pre @ fs) params cp i tr perr =
   createSource_loop fs params cp (i + length pre) (tr @ [i ..< i + length pre])
     (if pre = [] then perr else message (projl (last pre params cp)))"
proof (induction pre arbitrary: i tr perr)
  case Nil
  show ?case by simp
next
  case (Cons f pre)
  from Cons.prems obtain e where e: "f params cp = Inl e" "instanceof_InvalidProducerError e"
    by (auto simp: not_recognized_def split: sum.splits)
  from Cons.prems have rest: "list_all (\<lambda>f. not_recognized f params cp) pre"
    by simp
  show ?case
    using Cons.IH [OF rest, of "Suc i" "tr @ [i]" "message e"] e
    by (simp add: upt_from_here del: upt_Suc)
qed

lemma createSource_after_prefix:
  assumes "list_all (\<lambda>f. not_recognized f params cp) pre"
  shows "createSource (pre @ fs) params cp =
         createSource_loop fs params cp (length pre) [0 ..< length pre]
           (if pre = [] then [] else message (projl (last pre params cp)))"
  using createSource_loop_prefix [OF assms, of fs 0 "[]" "[]"]
  by (simp add: createSource_def)

text \<open>
  C1. Let the factories \<open>pre\<close> at the head of the registry all fail with an
  \<open>InvalidProducerError\<close>, and let \<open>f\<close> be the factory after them. If \<open>f\<close> succeeds,
  \<open>createSource\<close> returns its producer, and the factories that ran are exactly those at
  positions \<open>0 .. length pre\<close>, in that order: none of \<open>fs\<close>, registered after \<open>f\<close>, is tried.
  If \<open>f\<close> fails with an error that is not an \<open>InvalidProducerError\<close>, that error is thrown to
  the caller, again with nothing after \<open>f\<close> tried. If \<open>f\<close> fails with an
  \<open>InvalidProducerError\<close>, its message is recorded in \<open>producerErr\<close> and the loop goes on with
  the next factory. And when all factories are as \<open>pre\<close>, \<open>createSource\<close> returns \<open>null\<close>
  after trying every one in order, holding the last message.
\<close>

theorem createSource_ordered_fallback:
  assumes pre: "list_all (\<lambda>f. not_recognized f params cp) pre"
  shows "(f params cp = Inr producer \<longrightarrow>
            outcome (createSource (pre @ f # fs) params cp) = Inr (Some producer) \<and>
            tried (createSource (pre @ f # fs) params cp) = [0 ..< Suc (length pre)]) \<and>
         (f params cp = Inl err \<and> \<not> instanceof_InvalidProducerError err \<longrightarrow>
            outcome (createSource (pre @ f # fs) params cp) = Inl err \<and>
            tried (createSource (pre @ f # fs) params cp) = [0 ..< Suc (length pre)]) \<and>
         (f params cp = Inl err \<and> instanceof_InvalidProducerError err \<longrightarrow>
            createSource (pre @ f # fs) params cp =
            createSource_loop fs params cp (Suc (length pre)) [0 ..< Suc (length pre)]
              (message err)) \<and>
         outcome (createSource pre params cp) = Inr None \<and>
         tried (createSource pre params cp) = [0 ..< length pre] \<and>
         producerErr (createSource pre params cp) =
           (if pre = [] then [] else message (projl (last pre params cp)))"
proof -
  have step: "createSource (pre @ f # fs) params cp =
      createSource_loop (f # fs) params cp (length pre) [0 ..< length pre]
        (if pre = [] then [] else message (projl (last pre params cp)))"
    by (rule createSource_after_prefix [OF pre])
  have none: "createSource pre params cp =
      createSource_loop [] params cp (length pre) [0 ..< length pre]
        (if pre = [] then [] else message (projl (last pre params cp)))"
    using createSource_after_prefix [OF pre, of "[]"] by simp
  show ?thesis
    unfolding step none by simp
qed

theorem createSource_ordered_fallback_witness:
  "list_all (\<lambda>f. not_recognized f lp0 cp0) [f_unrecognized] \<and>
   outcome (createSource [f_unrecognized, f_opens, f_breaks] lp0 cp0) = Inr (Some 7) \<and>
   tried (createSource [f_unrecognized, f_opens, f_breaks] lp0 cp0) = [0, 1] \<and>
   outcome (createSource [f_unrecognized, f_breaks, f_opens] lp0 cp0) = Inl (Error ''boom'') \<and>
   tried (createSource [f_unrecognized, f_breaks, f_opens] lp0 cp0) = [0, 1] \<and>
   outcome (createSource [f_unrecognized] lp0 cp0) = Inr None \<and>
   producerErr (createSource [f_unrecognized] lp0 cp0) = ''no device''"
proof -
  have h: "list_all (\<lambda>f. not_recognized f lp0 cp0) [f_unrecognized]"
    by (simp add: not_recognized_def f_unrecognized_def)
  have a: "f_opens lp0 cp0 = Inr 7"
    by (simp add: f_opens_def)
  have b: "f_breaks lp0 cp0 = Inl (Error ''boom'')"
    by (simp add: f_breaks_def)
  have c: "\<not> instanceof_InvalidProducerError (Error ''boom'')"
    by simp
  have d: "message (projl (f_unrecognized lp0 cp0)) = ''no device''"
    by (simp add: f_unrecognized_def)
  show ?thesis
    using h a b c d
      createSource_ordered_fallback [OF h, of f_opens 7 "[f_breaks]" "Error ''boom''"]
      createSource_ordered_fallback [OF h, of f_breaks 7 "[f_opens]" "Error ''boom''"]
    by simp
qed

section \<open>Properties of the demux stage\<close>

lemma packets_demux_accept:
  "packets (demux_accept d s p) = packets s @ (if selected d p then [p] else [])"
  by (simp add: demux_accept_def selected_def)

lemma packets_demux_after:
  "packets (demux_after d s ps) = packets s @ filter (selected d) ps"
  by (induction ps arbitrary: s) (simp_all add: demux_after_def packets_demux_accept)

lemma demux_after_Cons: "demux_after d s (p # ps) = demux_after d (demux_accept d s p) ps"
  by (simp add: demux_after_def)

lemma find_upt_Suc:
  "find P [0 ..< Suc n] =
     (if P 0 then Some 0 else map_option Suc (find (\<lambda>k. P (Suc k)) [0 ..< n]))"
proof -
  have "[0 ..< Suc n] = 0 # map Suc [0 ..< n]"
    by (simp add: upt_conv_Cons map_Suc_upt del: upt_Suc)
  moreover have "find P (map Suc xs) = map_option Suc (find (\<lambda>k. P (Suc k)) xs)" for xs
    by (induction xs) simp_all
  ultimately show ?thesis by (simp del: upt_Suc)
qed

text \<open>
  The loop stops at the first packet after which line 255 holds and returns the packets
  pushed so far; if no packet of the source gets there, it returns \<open>end\<close>.
\<close>

lemma demux_loop_first_due:
  "demux_loop d s src =
     (case find (batch_due d s src) [0 ..< length src] of
        None \<Rightarrow> \<lparr>result = RedioEnd, remaining = [], mismatch_logged = None\<rparr>
      | Some n \<Rightarrow>
          \<lparr>result = Value (packets (demux_after d s (take (Suc n) src))),
           remaining = drop (Suc n) src,
           mismatch_logged =
             (if doBreak (demux_after d s (take (Suc n) src))
              then Some (length (packets (demux_after d s (take (Suc n) src))),
                         length (audioStreams d) + length (videoStreams d))
              else None)\<rparr>)"
proof (induction src arbitrary: s)
  case Nil
  show ?case by simp
next
  case (Cons p src)
  have shift: "(\<lambda>k. batch_due d s (p # src) (Suc k)) = batch_due d (demux_accept d s p) src"
    by (rule ext) (simp add: batch_due_def demux_after_Cons)
  have first: "batch_due d s (p # src) 0 = demux_done d (demux_accept d s p)"
    by (simp add: batch_due_def demux_after_def)
  show ?case
  proof (cases "demux_done d (demux_accept d s p)")
    case True
    then show ?thesis
      by (simp add: find_upt_Suc first demux_after_def Let_def del: upt_Suc)
  next
    case False
    then show ?thesis
      using Cons.IH [of "demux_accept d s p"]
      by (simp add: find_upt_Suc first shift demux_after_Cons Let_def del: upt_Suc
               split: option.splits)
  qed
qed

text \<open>\<open>d_av\<close> is what discovery computes for such a file, whatever its packets.\<close>

lemma discover_d_av:
  "discover (env_of ss ps) discovery_init [vid_stream 0 ''yuv422p'', aud_stream 1 ''stereo''] = Inr d_av"
  by (simp add: discover_step_def discovery_init_def lib_def env_of_def d_av_def vid_stream_def
      aud_stream_def numAudChannels_def numVidChannels_def Let_def)

lemma doBreak_demux_accept:
  "doBreak (demux_accept d s p) =
     (doBreak s \<or>
      (stream_index p \<in> set (audioIndexes d) \<and> \<not> js_not (lastAudTimestamp s) \<and>
       Some (pts p) \<noteq> lastAudTimestamp s) \<or>
      (stream_index p \<notin> set (audioIndexes d) \<and> stream_index p \<in> set (videoIndexes d) \<and>
       \<not> js_not (lastVidTimestamp s) \<and> Some (pts p) \<noteq> lastVidTimestamp s))"
  by (simp add: demux_accept_def)

text \<open>
  What the loop has recorded once packets with non-zero timestamps have been read: for
  each leg the timestamp of its first packet, and in \<open>doBreak\<close> whether a later packet of
  a leg differed from it.
\<close>

lemma differs_from_first_snoc:
  "differs_from_first (qs @ [p]) =
     (differs_from_first qs \<or> (qs \<noteq> [] \<and> Some (pts p) \<noteq> first_pts qs))"
  by (cases qs) (auto simp: first_pts_def)

lemma first_pts_snoc:
  "first_pts (qs @ [p]) = (if qs = [] then Some (pts p) else first_pts qs)"
  by (cases qs) (simp_all add: first_pts_def)

lemma js_not_first_pts:
  "list_all (\<lambda>p. pts p \<noteq> 0) qs \<Longrightarrow> js_not (first_pts qs) = (qs = [])"
  by (cases qs) (simp_all add: first_pts_def js_not_def)

lemma demux_after_snoc:
  "demux_after d s (ps @ [p]) = demux_accept d (demux_after d s ps) p"
  by (simp add: demux_after_def)

lemma nonzero_legs:
  assumes "list_all (\<lambda>p. pts p \<noteq> 0) (filter (selected d) ps)"
  shows "list_all (\<lambda>p. pts p \<noteq> 0) (aud_packets d ps)"
    and "list_all (\<lambda>p. pts p \<noteq> 0) (vid_packets d ps)"
  using assms by (auto simp: list_all_iff aud_packets_def vid_packets_def selected_def)

lemma demux_after_records:
  assumes "list_all (\<lambda>p. pts p \<noteq> 0) (filter (selected d) ps)"
  shows "lastAudTimestamp (demux_after d demux_start ps) = first_pts (aud_packets d ps) \<and>
         lastVidTimestamp (demux_after d demux_start ps) = first_pts (vid_packets d ps) \<and>
         doBreak (demux_after d demux_start ps) = leg_mismatch d ps"
  using assms
proof (induction ps rule: rev_induct)
  case Nil
  show ?case
    by (simp add: demux_after_def demux_start_def first_pts_def aud_packets_def vid_packets_def
        leg_mismatch_def)
next
  case (snoc p ps)
  from snoc.prems have nz: "list_all (\<lambda>p. pts p \<noteq> 0) (filter (selected d) ps)"
    by simp
  note ih = snoc.IH [OF nz]
  note za = js_not_first_pts [OF nonzero_legs(1) [OF nz]]
  note zv = js_not_first_pts [OF nonzero_legs(2) [OF nz]]
  let ?s = "demux_after d demux_start ps"
  show ?case
  proof (cases "stream_index p \<in> set (audioIndexes d)")
    case True
    then have a: "aud_packets d (ps @ [p]) = aud_packets d ps @ [p]"
      and v: "vid_packets d (ps @ [p]) = vid_packets d ps"
      by (simp_all add: aud_packets_def vid_packets_def)
    show ?thesis
      unfolding demux_after_snoc a v leg_mismatch_def differs_from_first_snoc first_pts_snoc
      using True ih za
      by (auto simp: demux_accept_def leg_mismatch_def)
  next
    case False
    show ?thesis
    proof (cases "stream_index p \<in> set (videoIndexes d)")
      case True
      with False have a: "aud_packets d (ps @ [p]) = aud_packets d ps"
        and v: "vid_packets d (ps @ [p]) = vid_packets d ps @ [p]"
        by (simp_all add: aud_packets_def vid_packets_def)
      show ?thesis
        unfolding demux_after_snoc a v leg_mismatch_def differs_from_first_snoc first_pts_snoc
        using True False ih zv
        by (auto simp: demux_accept_def leg_mismatch_def)
    next
      case nv: False
      with False have a: "aud_packets d (ps @ [p]) = aud_packets d ps"
        and v: "vid_packets d (ps @ [p]) = vid_packets d ps"
        by (simp_all add: aud_packets_def vid_packets_def)
      show ?thesis
        unfolding demux_after_snoc
        using nv False ih
        by (simp add: demux_accept_def leg_mismatch_def a v)
    qed
  qed
qed


lemma nonzero_take:
  "list_all (\<lambda>p. pts p \<noteq> 0) (filter (selected d) src) \<Longrightarrow>
   list_all (\<lambda>p. pts p \<noteq> 0) (filter (selected d) (take k src))"
  by (auto simp: list_all_iff dest: in_set_takeD)

text \<open>
  C2, amended. Let the packets of the selected streams carry non-zero timestamps. One
  call of the demux stage reads packets in order and keeps, in that order, those whose
  stream index is in the audio or the video index array. It hands the batch on at the
  first packet after which (a) the number of packets kept equals the number of selected
  streams, or (b) one of the packets read has a timestamp different from that of the
  first packet of its own leg, audio against audio and video against video; the batch
  then holds every packet kept so far, the differing one included, and the mismatch is
  logged with the number of packets sent and expected. When the source ends before (a)
  or (b), the stage returns the end marker and not the packets kept so far.
\<close>

theorem demux_batch_rule:
  assumes nz: "list_all (\<lambda>p. pts p \<noteq> 0) (filter (selected d) src)"
  shows "demux_loop d demux_start src =
     (case find (\<lambda>n. leg_mismatch d (take (Suc n) src) \<or>
                      length (filter (selected d) (take (Suc n) src)) =
                        length (audioStreams d) + length (videoStreams d))
             [0 ..< length src] of
        None \<Rightarrow> \<lparr>result = RedioEnd, remaining = [], mismatch_logged = None\<rparr>
      | Some n \<Rightarrow>
          \<lparr>result = Value (filter (selected d) (take (Suc n) src)),
           remaining = drop (Suc n) src,
           mismatch_logged =
             (if leg_mismatch d (take (Suc n) src)
              then Some (length (filter (selected d) (take (Suc n) src)),
                         length (audioStreams d) + length (videoStreams d))
              else None)\<rparr>)"
proof -
  have brk: "doBreak (demux_after d demux_start (take k src)) = leg_mismatch d (take k src)" for k
    using demux_after_records [OF nonzero_take [OF nz, of k]] by simp
  have pk: "packets (demux_after d demux_start ps) = filter (selected d) ps" for ps
    by (simp add: packets_demux_after demux_start_def)
  have due: "batch_due d demux_start src =
      (\<lambda>n. leg_mismatch d (take (Suc n) src) \<or>
            length (filter (selected d) (take (Suc n) src)) =
              length (audioStreams d) + length (videoStreams d))"
    by (rule ext) (simp only: batch_due_def demux_done_def brk pk)
  show ?thesis
    unfolding demux_loop_first_due [of d demux_start src] due brk pk ..
qed


text \<open>
  C2, as stated, fails in both of its conditions. In a file with audio stream 1 and
  video stream 0, two audio packets with the same timestamp are handed on as a batch,
  because their number equals the number of selected streams: the batch holds no video
  packet, so it is not one packet per selected stream, and no two of its timestamps
  differ. In a file with audio streams 1 and 2 and video stream 0, an audio packet with
  timestamp 40 is followed by a video packet with timestamp 41: the audio and the video
  timestamps differ and the batch is not complete, yet nothing is flushed; the loop
  reads on and returns all three packets without logging a mismatch.
\<close>

theorem demux_batch_counterexample:
  "result (demux_loop d_av demux_start [pkt 1 5, pkt 1 5]) = Value [pkt 1 5, pkt 1 5] \<and>
   mismatch_logged (demux_loop d_av demux_start [pkt 1 5, pkt 1 5]) = None \<and>
   \<not> spec_complete_instant d_av [pkt 1 5, pkt 1 5] \<and>
   \<not> spec_timestamp_mismatch [pkt 1 5, pkt 1 5] \<and>
   spec_av_mismatch d_aav [pkt 1 40, pkt 0 41] \<and>
   \<not> spec_complete_instant d_aav [pkt 1 40, pkt 0 41] \<and>
   demux_loop d_aav demux_start [pkt 1 40, pkt 0 41, pkt 2 40] =
     \<lparr>result = Value [pkt 1 40, pkt 0 41, pkt 2 40], remaining = [], mismatch_logged = None\<rparr>"
  by (simp add: demux_accept_def demux_done_def demux_start_def d_av_def d_aav_def pkt_def
      js_not_def spec_complete_instant_def spec_timestamp_mismatch_def spec_av_mismatch_def
      aud_packets_def vid_packets_def Let_def)

theorem demux_batch_rule_witness:
  "list_all (\<lambda>p. pts p \<noteq> 0) (filter (selected d_aav) [pkt 1 40, pkt 0 41, pkt 2 40]) \<and>
   demux_loop d_aav demux_start [pkt 1 40, pkt 0 41, pkt 2 40] =
     \<lparr>result = Value [pkt 1 40, pkt 0 41, pkt 2 40], remaining = [],
      mismatch_logged = None\<rparr> \<and>
   demux_loop d_aav demux_start [pkt 1 40, pkt 2 41, pkt 0 40] =
     \<lparr>result = Value [pkt 1 40, pkt 2 41], remaining = [pkt 0 40],
      mismatch_logged = Some (2, 3)\<rparr> \<and>
   demux_loop d_aav demux_start [pkt 1 40, pkt 7 40, pkt 2 40, pkt 0 40, pkt 1 41] =
     \<lparr>result = Value [pkt 1 40, pkt 2 40, pkt 0 40], remaining = [pkt 1 41],
      mismatch_logged = None\<rparr> \<and>
   demux_loop d_aav demux_start [pkt 1 40, pkt 2 40] =
     \<lparr>result = RedioEnd, remaining = [], mismatch_logged = None\<rparr>"
proof -
  have upt5: "[0 ..< 5] = [0, 1, 2, 3, 4]" and upt3: "[0 ..< 3] = [0, 1, 2]"
    and upt2: "[0 ..< 2] = [0, 1]"
    by (simp_all add: upt_rec)
  note ev = leg_mismatch_def aud_packets_def vid_packets_def selected_def d_aav_def pkt_def
  have n1: "list_all (\<lambda>p. pts p \<noteq> 0) (filter (selected d_aav) [pkt 1 40, pkt 0 41, pkt 2 40])"
    and n2: "list_all (\<lambda>p. pts p \<noteq> 0) (filter (selected d_aav) [pkt 1 40, pkt 2 41, pkt 0 40])"
    and n3: "list_all (\<lambda>p. pts p \<noteq> 0)
      (filter (selected d_aav) [pkt 1 40, pkt 7 40, pkt 2 40, pkt 0 40, pkt 1 41])"
    and n4: "list_all (\<lambda>p. pts p \<noteq> 0) (filter (selected d_aav) [pkt 1 40, pkt 2 40])"
    by (simp_all add: selected_def d_aav_def pkt_def)
  have "demux_loop d_aav demux_start [pkt 1 40, pkt 0 41, pkt 2 40] =
     \<lparr>result = Value [pkt 1 40, pkt 0 41, pkt 2 40], remaining = [],
      mismatch_logged = None\<rparr>"
    unfolding demux_batch_rule [OF n1] by (simp add: upt3 ev)
  moreover have "demux_loop d_aav demux_start [pkt 1 40, pkt 2 41, pkt 0 40] =
     \<lparr>result = Value [pkt 1 40, pkt 2 41], remaining = [pkt 0 40],
      mismatch_logged = Some (2, 3)\<rparr>"
    unfolding demux_batch_rule [OF n2] by (simp add: upt3 ev)
  moreover have "demux_loop d_aav demux_start [pkt 1 40, pkt 7 40, pkt 2 40, pkt 0 40, pkt 1 41] =
     \<lparr>result = Value [pkt 1 40, pkt 2 40, pkt 0 40], remaining = [pkt 1 41],
      mismatch_logged = None\<rparr>"
    unfolding demux_batch_rule [OF n3] by (simp add: upt5 ev)
  moreover have "demux_loop d_aav demux_start [pkt 1 40, pkt 2 40] =
     \<lparr>result = RedioEnd, remaining = [], mismatch_logged = None\<rparr>"
    unfolding demux_batch_rule [OF n4] by (simp add: upt2 ev)
  ultimately show ?thesis
    using n1 by blast
qed

lemma demux_accept_aud_unset:
  "stream_index p \<in> set (audioIndexes d) \<Longrightarrow> js_not (lastAudTimestamp s) \<Longrightarrow>
   demux_accept d s p = s\<lparr>lastAudTimestamp := Some (pts p), packets := packets s @ [p]\<rparr>"
  by (simp add: demux_accept_def)

lemma demux_accept_vid_unset:
  "stream_index p \<notin> set (audioIndexes d) \<Longrightarrow> stream_index p \<in> set (videoIndexes d) \<Longrightarrow>
   js_not (lastVidTimestamp s) \<Longrightarrow>
   demux_accept d s p = s\<lparr>lastVidTimestamp := Some (pts p), packets := packets s @ [p]\<rparr>"
  by (simp add: demux_accept_def)

lemma demux_loop_aud_falsy:
  "js_not a \<Longrightarrow> js_not b \<Longrightarrow>
   demux_loop d (s\<lparr>lastAudTimestamp := a\<rparr>) src = demux_loop d (s\<lparr>lastAudTimestamp := b\<rparr>) src"
proof (induction src arbitrary: s)
  case Nil
  show ?case by simp
next
  case (Cons p src)
  show ?case
  proof (cases "stream_index p \<in> set (audioIndexes d)")
    case True
    with Cons.prems have "demux_accept d (s\<lparr>lastAudTimestamp := a\<rparr>) p =
        demux_accept d (s\<lparr>lastAudTimestamp := b\<rparr>) p"
      by (simp add: demux_accept_def)
    then show ?thesis by simp
  next
    case False
    have move: "demux_accept d (s\<lparr>lastAudTimestamp := x\<rparr>) p =
        (demux_accept d s p)\<lparr>lastAudTimestamp := x\<rparr>" for x
      using False by (simp add: demux_accept_def)
    have same: "demux_done d (t\<lparr>lastAudTimestamp := x\<rparr>) = demux_done d t" for t x
      by (simp add: demux_done_def)
    show ?thesis
      using Cons.IH [OF Cons.prems, of "demux_accept d s p"]
      by (simp add: move same Let_def)
  qed
qed

lemma demux_loop_vid_falsy:
  "js_not a \<Longrightarrow> js_not b \<Longrightarrow>
   demux_loop d (s\<lparr>lastVidTimestamp := a\<rparr>) src = demux_loop d (s\<lparr>lastVidTimestamp := b\<rparr>) src"
proof (induction src arbitrary: s)
  case Nil
  show ?case by simp
next
  case (Cons p src)
  show ?case
  proof (cases "stream_index p \<notin> set (audioIndexes d) \<and> stream_index p \<in> set (videoIndexes d)")
    case True
    with Cons.prems have "demux_accept d (s\<lparr>lastVidTimestamp := a\<rparr>) p =
        demux_accept d (s\<lparr>lastVidTimestamp := b\<rparr>) p"
      by (simp add: demux_accept_def)
    then show ?thesis by simp
  next
    case False
    have move: "demux_accept d (s\<lparr>lastVidTimestamp := x\<rparr>) p =
        (demux_accept d s p)\<lparr>lastVidTimestamp := x\<rparr>" for x
      using False by (auto simp add: demux_accept_def)
    have same: "demux_done d (t\<lparr>lastVidTimestamp := x\<rparr>) = demux_done d t" for t x
      by (simp add: demux_done_def)
    show ?thesis
      using Cons.IH [OF Cons.prems, of "demux_accept d s p"]
      by (simp add: move same Let_def)
  qed
qed

text \<open>
  C10. A recorded timestamp of 0 is treated as no timestamp: when the timestamp recorded
  for the audio leg is 0, the next audio packet overwrites it with its own, is pushed, and
  leaves \<open>doBreak\<close> as it was; so for the video leg. The whole loop behaves from a state that
  holds 0 exactly as from the state that holds nothing, so no mismatch against a timestamp
  of 0 ever ends a batch early.
\<close>

theorem zero_timestamp_counts_as_unset:
  "(stream_index p \<in> set (audioIndexes d) \<longrightarrow>
      demux_accept d (s\<lparr>lastAudTimestamp := Some 0\<rparr>) p =
      s\<lparr>lastAudTimestamp := Some (pts p), packets := packets s @ [p]\<rparr>) \<and>
   (stream_index p \<notin> set (audioIndexes d) \<and> stream_index p \<in> set (videoIndexes d) \<longrightarrow>
      demux_accept d (s\<lparr>lastVidTimestamp := Some 0\<rparr>) p =
      s\<lparr>lastVidTimestamp := Some (pts p), packets := packets s @ [p]\<rparr>) \<and>
   demux_loop d (s\<lparr>lastAudTimestamp := Some 0\<rparr>) src =
     demux_loop d (s\<lparr>lastAudTimestamp := None\<rparr>) src \<and>
   demux_loop d (s\<lparr>lastVidTimestamp := Some 0\<rparr>) src =
     demux_loop d (s\<lparr>lastVidTimestamp := None\<rparr>) src"
proof -
  have z: "js_not (Some 0)" and n: "js_not None"
    by (simp_all add: js_not_def)
  have a: "stream_index p \<in> set (audioIndexes d) \<Longrightarrow>
      demux_accept d (s\<lparr>lastAudTimestamp := Some 0\<rparr>) p =
      s\<lparr>lastAudTimestamp := Some (pts p), packets := packets s @ [p]\<rparr>"
    using demux_accept_aud_unset [of p d "s\<lparr>lastAudTimestamp := Some 0\<rparr>"] z by simp
  have v: "stream_index p \<notin> set (audioIndexes d) \<Longrightarrow> stream_index p \<in> set (videoIndexes d) \<Longrightarrow>
      demux_accept d (s\<lparr>lastVidTimestamp := Some 0\<rparr>) p =
      s\<lparr>lastVidTimestamp := Some (pts p), packets := packets s @ [p]\<rparr>"
    using demux_accept_vid_unset [of p d "s\<lparr>lastVidTimestamp := Some 0\<rparr>"] z by simp
  show ?thesis
    using a v demux_loop_aud_falsy [OF z n] demux_loop_vid_falsy [OF z n] by blast
qed

text \<open>
  With two audio streams and one video stream: a first audio timestamp of 0 followed by
  1024 does not end the batch, which completes with the video packet; a first audio
  timestamp of 40 followed by 1024 does.
\<close>

theorem zero_timestamp_counts_as_unset_witness:
  "stream_index (pkt 2 1024) \<in> set (audioIndexes d_aav) \<and>
   demux_accept d_aav (demux_accept d_aav demux_start (pkt 1 0)) (pkt 2 1024) =
     \<lparr>lastAudTimestamp = Some 1024, lastVidTimestamp = None,
      packets = [pkt 1 0, pkt 2 1024], doBreak = False\<rparr> \<and>
   result (demux_loop d_aav demux_start [pkt 1 0, pkt 2 1024, pkt 0 0]) =
     Value [pkt 1 0, pkt 2 1024, pkt 0 0] \<and>
   result (demux_loop d_aav demux_start [pkt 1 40, pkt 2 1024, pkt 0 40]) =
     Value [pkt 1 40, pkt 2 1024]"
proof -
  have h: "stream_index (pkt 2 1024) \<in> set (audioIndexes d_aav)"
    by (simp add: pkt_def d_aav_def)
  have first: "demux_accept d_aav demux_start (pkt 1 0) =
      (demux_start\<lparr>packets := [pkt 1 0]\<rparr>)\<lparr>lastAudTimestamp := Some 0\<rparr>"
    by (simp add: demux_accept_def demux_start_def pkt_def d_aav_def js_not_def)
  have second: "demux_accept d_aav (demux_accept d_aav demux_start (pkt 1 0)) (pkt 2 1024) =
     \<lparr>lastAudTimestamp = Some 1024, lastVidTimestamp = None,
      packets = [pkt 1 0, pkt 2 1024], doBreak = False\<rparr>"
    unfolding first
    using zero_timestamp_counts_as_unset
      [of "pkt 2 1024" d_aav "demux_start\<lparr>packets := [pkt 1 0]\<rparr>" "[]", THEN conjunct1] h
    by (simp add: demux_start_def pkt_def)
  have runs: "result (demux_loop d_aav demux_start [pkt 1 0, pkt 2 1024, pkt 0 0]) =
     Value [pkt 1 0, pkt 2 1024, pkt 0 0] \<and>
   result (demux_loop d_aav demux_start [pkt 1 40, pkt 2 1024, pkt 0 40]) =
     Value [pkt 1 40, pkt 2 1024]"
    by (simp add: demux_accept_def demux_done_def demux_start_def d_aav_def pkt_def js_not_def
        Let_def)
  show ?thesis
    using h second runs by blast
qed

section \<open>Properties of stream discovery\<close>

text \<open>A library call either succeeds or throws a plain error.\<close>

lemma lib_cases:
  "lib e c = Inr () \<or> (\<exists>m. lib e c = Inl (Error m))"
  by (simp add: lib_def split: option.splits)

lemma lib_Inl_not_invalid: "lib e c = Inl err \<Longrightarrow> \<not> instanceof_InvalidProducerError err"
  by (auto simp: lib_def split: option.splits)

lemma discover_step_Inr:
  assumes "discover_step e d s = Inr d'"
  shows "audioStreams d' = audioStreams d @
           (if is_audio s \<and> length (audioStreams d) < numAudChannels then [keep s] else [])"
    and "videoStreams d' = videoStreams d @
           (if is_video s \<and> length (videoStreams d) < numVidChannels then [keep s] else [])"
    and "audioIndexes d' = audioIndexes d @
           (if is_audio s \<and> length (audioStreams d) < numAudChannels then [index s] else [])"
    and "videoIndexes d' = videoIndexes d @
           (if is_video s \<and> length (videoStreams d) < numVidChannels then [index s] else [])"
    and "demuxer_streams d' = demuxer_streams d @
           [s\<lparr>discard :=
               (if is_audio s \<and> length (audioStreams d) < numAudChannels \<or>
                   is_video s \<and> length (videoStreams d) < numVidChannels
                then ''default'' else ''all'')\<rparr>]"
    and "decoders d' =
           (if is_audio s \<and> length (audioStreams d) < numAudChannels \<or>
               is_video s \<and> length (videoStreams d) < numVidChannels
            then (decoders d)(index s \<mapsto> \<lparr>decoder_stream_index = index s\<rparr>)
            else decoders d)"
  using assms
  by (auto simp: discover_step_def is_audio_def is_video_def keep_def Let_def
           split: if_splits sum.splits)

lemma discover_audioStreams:
  "discover e d ss = Inr d' \<Longrightarrow>
   audioStreams d' = audioStreams d @
     take (numAudChannels - length (audioStreams d)) (map keep (filter is_audio ss))"
proof (induction ss arbitrary: d)
  case Nil
  then show ?case by simp
next
  case (Cons s ss)
  from Cons.prems obtain d1 where st: "discover_step e d s = Inr d1" and r: "discover e d1 ss = Inr d'"
    by (auto split: sum.splits)
  show ?case
    using Cons.IH [OF r] discover_step_Inr(1) [OF st]
    by (auto simp: take_Cons' )
qed


lemma discover_videoStreams:
  "discover e d ss = Inr d' \<Longrightarrow>
   videoStreams d' = videoStreams d @
     take (numVidChannels - length (videoStreams d)) (map keep (filter is_video ss))"
proof (induction ss arbitrary: d)
  case Nil
  then show ?case by simp
next
  case (Cons s ss)
  from Cons.prems obtain d1 where st: "discover_step e d s = Inr d1" and r: "discover e d1 ss = Inr d'"
    by (auto split: sum.splits)
  show ?case
    using Cons.IH [OF r] discover_step_Inr(2) [OF st]
    by (auto simp: take_Cons')
qed

lemma index_keep: "index (keep s) = index s"
  by (simp add: keep_def)

lemma discover_indexes:
  "discover e d ss = Inr d' \<Longrightarrow>
   audioIndexes d = map index (audioStreams d) \<Longrightarrow> videoIndexes d = map index (videoStreams d) \<Longrightarrow>
   audioIndexes d' = map index (audioStreams d') \<and> videoIndexes d' = map index (videoStreams d')"
proof (induction ss arbitrary: d)
  case Nil
  then show ?case by simp
next
  case (Cons s ss)
  from Cons.prems(1) obtain d1 where st: "discover_step e d s = Inr d1" and r: "discover e d1 ss = Inr d'"
    by (auto split: sum.splits)
  have "audioIndexes d1 = map index (audioStreams d1)" "videoIndexes d1 = map index (videoStreams d1)"
    using discover_step_Inr(1-4) [OF st] Cons.prems(2,3) by (simp_all add: index_keep)
  then show ?case
    using Cons.IH [OF r] by simp
qed

lemma discover_decoders:
  "discover e d ss = Inr d' \<Longrightarrow>
   dom (decoders d) = set (audioIndexes d) \<union> set (videoIndexes d) \<Longrightarrow>
   (\<forall>i \<in> dom (decoders d). decoders d i = Some \<lparr>decoder_stream_index = i\<rparr>) \<Longrightarrow>
   dom (decoders d') = set (audioIndexes d') \<union> set (videoIndexes d') \<and>
   (\<forall>i \<in> dom (decoders d'). decoders d' i = Some \<lparr>decoder_stream_index = i\<rparr>)"
proof (induction ss arbitrary: d)
  case Nil
  then show ?case by simp
next
  case (Cons s ss)
  from Cons.prems(1) obtain d1 where st: "discover_step e d s = Inr d1" and r: "discover e d1 ss = Inr d'"
    by (auto split: sum.splits)
  have a: "dom (decoders d1) = set (audioIndexes d1) \<union> set (videoIndexes d1)"
    using discover_step_Inr(3,4,6) [OF st] Cons.prems(2)
    by (auto simp: is_audio_def is_video_def split: if_splits)
  have b: "\<forall>i \<in> dom (decoders d1). decoders d1 i = Some \<lparr>decoder_stream_index = i\<rparr>"
    using discover_step_Inr(6) [OF st] Cons.prems(3)
    by (auto split: if_splits)
  show ?case
    using Cons.IH [OF r a b] .
qed

lemma discover_demuxer_streams:
  "discover e d ss = Inr d' \<Longrightarrow>
   map (\<lambda>s. s\<lparr>discard := []\<rparr>) (demuxer_streams d') =
     map (\<lambda>s. s\<lparr>discard := []\<rparr>) (demuxer_streams d) @ map (\<lambda>s. s\<lparr>discard := []\<rparr>) ss"
proof (induction ss arbitrary: d)
  case Nil
  then show ?case by simp
next
  case (Cons s ss)
  from Cons.prems(1) obtain d1 where st: "discover_step e d s = Inr d1" and r: "discover e d1 ss = Inr d'"
    by (auto split: sum.splits)
  show ?case
    using Cons.IH [OF r] discover_step_Inr(5) [OF st] by simp
qed

lemma discover_marks:
  "discover e d ss = Inr d' \<Longrightarrow>
   filter (\<lambda>s. discard s = ''default'') (filter is_audio (demuxer_streams d)) = audioStreams d \<Longrightarrow>
   filter (\<lambda>s. discard s = ''default'') (filter is_video (demuxer_streams d)) = videoStreams d \<Longrightarrow>
   list_all (\<lambda>s. discard s = ''all'' \<or> discard s = ''default'' \<and> (is_audio s \<or> is_video s))
     (demuxer_streams d) \<Longrightarrow>
   filter (\<lambda>s. discard s = ''default'') (filter is_audio (demuxer_streams d')) = audioStreams d' \<and>
   filter (\<lambda>s. discard s = ''default'') (filter is_video (demuxer_streams d')) = videoStreams d' \<and>
   list_all (\<lambda>s. discard s = ''all'' \<or> discard s = ''default'' \<and> (is_audio s \<or> is_video s))
     (demuxer_streams d')"
proof (induction ss arbitrary: d)
  case Nil
  then show ?case by simp
next
  case (Cons s ss)
  from Cons.prems(1) obtain d1 where st: "discover_step e d s = Inr d1" and r: "discover e d1 ss = Inr d'"
    by (auto split: sum.splits)
  note step = discover_step_Inr [OF st]
  have excl: "\<not> (is_audio s \<and> is_video s)"
    by (auto simp: is_audio_def is_video_def)
  have a: "filter (\<lambda>s. discard s = ''default'') (filter is_audio (demuxer_streams d1)) =
      audioStreams d1"
    using step(1,5) Cons.prems(2) excl
    by (auto simp: is_audio_def is_video_def keep_def)
  have b: "filter (\<lambda>s. discard s = ''default'') (filter is_video (demuxer_streams d1)) =
      videoStreams d1"
    using step(2,5) Cons.prems(3) excl
    by (auto simp: is_audio_def is_video_def keep_def)
  have c: "list_all (\<lambda>s. discard s = ''all'' \<or> discard s = ''default'' \<and> (is_audio s \<or> is_video s))
      (demuxer_streams d1)"
    using step(5) Cons.prems(4) by (auto simp: is_audio_def is_video_def)
  show ?case
    using Cons.IH [OF r a b c] .
qed

lemma discover_total:
  "(\<And>i. lib_error e (MakeDecoder i) = None) \<Longrightarrow> \<exists>d'. discover e d ss = Inr d'"
proof (induction ss arbitrary: d)
  case Nil
  show ?case by simp
next
  case (Cons s ss)
  have "\<exists>d1. discover_step e d s = Inr d1"
    using Cons.prems by (simp add: discover_step_def lib_def Let_def)
  then obtain d1 where st: "discover_step e d s = Inr d1" ..
  show ?case
    using Cons.IH [OF Cons.prems, of d1] st by simp
qed

lemma discover_Inl_not_invalid:
  "discover e d ss = Inl err \<Longrightarrow> \<not> instanceof_InvalidProducerError err"
proof (induction ss arbitrary: d)
  case Nil
  then show ?case by simp
next
  case (Cons s ss)
  show ?case
  proof (cases "discover_step e d s")
    case (Inl x)
    with Cons.prems have "x = err" by simp
    with Inl show ?thesis
      by (auto simp: discover_step_def Let_def split: if_splits sum.splits
               dest: lib_Inl_not_invalid)
  next
    case (Inr d1)
    with Cons.prems have "discover e d1 ss = Inl err" by simp
    then show ?thesis by (rule Cons.IH)
  qed
qed


text \<open>
  C7, as stated, fails for a source without a video stream: discovery selects no video
  stream there, not exactly one.
\<close>

theorem discover_counterexample:
  "discover (env_of [aud_stream 0 ''stereo''] []) discovery_init [aud_stream 0 ''stereo''] = Inr d_a \<and>
   length (videoStreams d_a) = 0"
  by (simp add: discover_step_def discovery_init_def lib_def env_of_def d_a_def
      aud_stream_def numAudChannels_def numVidChannels_def Let_def)

text \<open>
  C7, amended. Stream discovery returns whenever the decoders can be built. It selects
  the first audio streams of the source up to the cap of 8 and the first video stream if
  there is one: at most 8 audio streams and at most one video stream, exactly one when
  the source declares a video stream. The index arrays list the indexes of the selected
  streams, and the decoder map has a decoder for the index of each selected stream and
  for nothing else, so it never holds more than 9 decoders. The streams of the demuxer
  are left as they were but for \<open>discard\<close>: it is \<open>'default'\<close> on the selected streams and
  \<open>'all'\<close> on every other one.
\<close>

theorem discover_selects:
  "((\<forall>i. lib_error e (MakeDecoder i) = None) \<longrightarrow> (\<exists>d'. discover e discovery_init ss = Inr d')) \<and>
   (discover e discovery_init ss = Inr d \<longrightarrow>
      audioStreams d = take numAudChannels (map keep (filter is_audio ss)) \<and>
      videoStreams d = take numVidChannels (map keep (filter is_video ss)) \<and>
      length (audioStreams d) \<le> 8 \<and>
      length (videoStreams d) \<le> 1 \<and>
      (length (videoStreams d) = 1) = (filter is_video ss \<noteq> []) \<and>
      audioIndexes d = map index (audioStreams d) \<and>
      videoIndexes d = map index (videoStreams d) \<and>
      dom (decoders d) = set (audioIndexes d) \<union> set (videoIndexes d) \<and>
      (\<forall>i \<in> dom (decoders d). decoders d i = Some \<lparr>decoder_stream_index = i\<rparr>) \<and>
      card (dom (decoders d)) \<le> 9 \<and>
      map (\<lambda>s. s\<lparr>discard := []\<rparr>) (demuxer_streams d) = map (\<lambda>s. s\<lparr>discard := []\<rparr>) ss \<and>
      filter (\<lambda>s. discard s = ''default'') (filter is_audio (demuxer_streams d)) = audioStreams d \<and>
      filter (\<lambda>s. discard s = ''default'') (filter is_video (demuxer_streams d)) = videoStreams d \<and>
      list_all (\<lambda>s. discard s = ''all'' \<or> discard s = ''default'' \<and> (is_audio s \<or> is_video s))
        (demuxer_streams d))"
proof (intro conjI impI)
  assume "\<forall>i. lib_error e (MakeDecoder i) = None"
  then show "\<exists>d'. discover e discovery_init ss = Inr d'"
    using discover_total [of e discovery_init ss] by simp
next
  assume r: "discover e discovery_init ss = Inr d"
  show a: "audioStreams d = take numAudChannels (map keep (filter is_audio ss))"
    using discover_audioStreams [OF r] by (simp add: discovery_init_def)
  show v: "videoStreams d = take numVidChannels (map keep (filter is_video ss))"
    using discover_videoStreams [OF r] by (simp add: discovery_init_def)
  show la: "length (audioStreams d) \<le> 8"
    unfolding a by (simp add: numAudChannels_def)
  show lv: "length (videoStreams d) \<le> 1"
    unfolding v by (simp add: numVidChannels_def)
  show "(length (videoStreams d) = 1) = (filter is_video ss \<noteq> [])"
    unfolding v by (cases "filter is_video ss") (simp_all add: numVidChannels_def)
  have ix: "audioIndexes d = map index (audioStreams d) \<and> videoIndexes d = map index (videoStreams d)"
    using discover_indexes [OF r] by (simp add: discovery_init_def)
  then show ai: "audioIndexes d = map index (audioStreams d)"
    and vi: "videoIndexes d = map index (videoStreams d)"
    by simp_all
  have dc: "dom (decoders d) = set (audioIndexes d) \<union> set (videoIndexes d) \<and>
      (\<forall>i \<in> dom (decoders d). decoders d i = Some \<lparr>decoder_stream_index = i\<rparr>)"
    using discover_decoders [OF r] by (simp add: discovery_init_def)
  then show dm: "dom (decoders d) = set (audioIndexes d) \<union> set (videoIndexes d)"
    and "\<forall>i \<in> dom (decoders d). decoders d i = Some \<lparr>decoder_stream_index = i\<rparr>"
    by simp_all
  have "card (set (audioIndexes d) \<union> set (videoIndexes d)) \<le>
      card (set (audioIndexes d)) + card (set (videoIndexes d))"
    by (rule card_Un_le)
  also have "\<dots> \<le> length (audioIndexes d) + length (videoIndexes d)"
    by (intro add_mono card_length)
  also have "\<dots> \<le> 9"
    using la lv by (simp add: ai vi)
  finally show "card (dom (decoders d)) \<le> 9"
    unfolding dm .
  show "map (\<lambda>s. s\<lparr>discard := []\<rparr>) (demuxer_streams d) = map (\<lambda>s. s\<lparr>discard := []\<rparr>) ss"
    using discover_demuxer_streams [OF r] by (simp add: discovery_init_def)
  have mk: "filter (\<lambda>s. discard s = ''default'') (filter is_audio (demuxer_streams d)) = audioStreams d \<and>
      filter (\<lambda>s. discard s = ''default'') (filter is_video (demuxer_streams d)) = videoStreams d \<and>
      list_all (\<lambda>s. discard s = ''all'' \<or> discard s = ''default'' \<and> (is_audio s \<or> is_video s))
        (demuxer_streams d)"
    using discover_marks [OF r] by (simp add: discovery_init_def)
  then show "filter (\<lambda>s. discard s = ''default'') (filter is_audio (demuxer_streams d)) = audioStreams d"
    and "filter (\<lambda>s. discard s = ''default'') (filter is_video (demuxer_streams d)) = videoStreams d"
    and "list_all (\<lambda>s. discard s = ''all'' \<or> discard s = ''default'' \<and> (is_audio s \<or> is_video s))
        (demuxer_streams d)"
    by simp_all
qed

theorem discover_selects_witness:
  "\<exists>d. discover (env_of crowded []) discovery_init crowded = Inr d \<and>
       map index (audioStreams d) = [0, 1, 2, 3, 4, 5, 6, 7] \<and>
       map index (videoStreams d) = [9] \<and>
       card (dom (decoders d)) \<le> 9"
proof -
  have ok: "\<forall>i. lib_error (env_of crowded []) (MakeDecoder i) = None"
    by (simp add: env_of_def)
  from discover_selects [of "env_of crowded []" crowded, THEN conjunct1] ok
  obtain d where d: "discover (env_of crowded []) discovery_init crowded = Inr d"
    by blast
  note facts = discover_selects [of "env_of crowded []" crowded d, THEN conjunct2, rule_format, OF d]
  have fa: "map index (take numAudChannels (map keep (filter is_audio crowded))) = [0, 1, 2, 3, 4, 5, 6, 7]"
    by (simp add: crowded_def is_audio_def aud_stream_def vid_stream_def other_stream_def keep_def
        numAudChannels_def)
  have fv: "map index (take numVidChannels (map keep (filter is_video crowded))) = [9]"
    by (simp add: crowded_def is_video_def aud_stream_def vid_stream_def other_stream_def keep_def
        numVidChannels_def)
  show ?thesis
    using d facts fa fv by auto
qed

section \<open>Properties of the audio path\<close>

lemma length_inParams: "length (inParams auds a) = length auds"
  by (simp add: inParams_def)

lemma channelLayout_inParams_mono:
  assumes "allMono auds" "length auds \<le> 8"
  shows "map channelLayout (inParams auds a) = map Some (take (length auds) audChanNames)"
proof (rule nth_equalityI)
  show "length (map channelLayout (inParams auds a)) =
      length (map Some (take (length auds) audChanNames))"
    using assms(2) by (simp add: inParams_def audChanNames_def)
next
  fix i
  assume "i < length (map channelLayout (inParams auds a))"
  then have i: "i < length auds"
    by (simp add: inParams_def)
  with assms(2) have "i < length audChanNames"
    by (simp add: audChanNames_def)
  with i assms(1) show "map channelLayout (inParams auds a) ! i =
      map Some (take (length auds) audChanNames) ! i"
    by (simp add: inParams_def inParam_def js_index_def)
qed

lemma channelLayout_inParams_other:
  assumes "\<not> allMono auds"
  shows "map channelLayout (inParams auds a) =
      replicate (length auds) (Some (channel_layout (codecpar a)))"
proof (rule nth_equalityI)
  show "length (map channelLayout (inParams auds a)) =
      length (replicate (length auds) (Some (channel_layout (codecpar a))))"
    by (simp add: inParams_def)
next
  fix i
  assume "i < length (map channelLayout (inParams auds a))"
  then have i: "i < length auds"
    by (simp add: inParams_def)
  with assms show "map channelLayout (inParams auds a) ! i =
      replicate (length auds) (Some (channel_layout (codecpar a))) ! i"
    by (simp add: inParams_def inParam_def)
qed

lemma distinct_audChanNames: "distinct audChanNames"
  by (simp add: audChanNames_def)

lemma audLayout_8c: "audLayout = ''8c''"
  by (simp add: audLayout_def numAudChannels_def)

text \<open>
  C8. Let \<open>auds\<close> be the selected audio streams, between 1 and 8 of them, and \<open>a\<close> the first.
  If all are tagged \<open>mono\<close>, the input of position \<open>i\<close> gets the channel layout
  \<open>audChanNames[i]\<close>: FL, FR, FC, SL, SR, LFE, BL, BR in selection order, all different.
  If one is not, every input gets the channel layout of the first audio stream. There is
  one input per selected stream, and the single output has the layout \<open>8c\<close> whatever the
  number of inputs. This is the filterer \<open>initialise\<close> builds when the library call
  succeeds.
\<close>

theorem mono_streams_get_speaker_positions:
  assumes "auds = a # rest" and "length auds \<le> 8"
  shows "(allMono auds \<longrightarrow>
            map channelLayout (inParams auds a) = map Some (take (length auds) audChanNames) \<and>
            distinct (map channelLayout (inParams auds a))) \<and>
         (\<not> allMono auds \<longrightarrow>
            map channelLayout (inParams auds a) =
              replicate (length auds) (Some (channel_layout (codecpar a)))) \<and>
         length (inParams auds a) = length auds \<and>
         inputParams (merge_filterer auds a) = inParams auds a \<and>
         map channelLayout (outputParams (merge_filterer auds a)) = [Some ''8c''] \<and>
         (lib_error e AudioFilterer = None \<longrightarrow>
            audio_path e auds = Inr (None, merge_filterer auds a))"
proof -
  have d: "distinct (map Some (take (length auds) audChanNames))"
    by (simp add: distinct_map distinct_audChanNames)
  have p: "lib_error e AudioFilterer = None \<Longrightarrow>
      audio_path e auds = Inr (None, merge_filterer auds a)"
    using assms(1) by (simp add: audio_path_def lib_def)
  show ?thesis
    using channelLayout_inParams_mono [OF _ assms(2), of a] channelLayout_inParams_other [of auds a]
      d p
    by (simp add: length_inParams merge_filterer_def out0_def audLayout_8c)
qed

theorem mono_streams_get_speaker_positions_witness:
  "map channelLayout
     (inParams [aud_stream 1 ''mono'', aud_stream 2 ''mono'', aud_stream 3 ''mono'']
        (aud_stream 1 ''mono'')) = [Some ''FL'', Some ''FR'', Some ''FC''] \<and>
   map channelLayout
     (inParams [aud_stream 1 ''stereo'', aud_stream 2 ''mono''] (aud_stream 1 ''stereo'')) =
     [Some ''stereo'', Some ''stereo''] \<and>
   map channelLayout
     (outputParams (merge_filterer [aud_stream 1 ''stereo'', aud_stream 2 ''mono'']
        (aud_stream 1 ''stereo''))) = [Some ''8c'']"
proof -
  have m: "allMono [aud_stream 1 ''mono'', aud_stream 2 ''mono'', aud_stream 3 ''mono'']"
    by (simp add: allMono_def aud_stream_def)
  have n: "\<not> allMono [aud_stream 1 ''stereo'', aud_stream 2 ''mono'']"
    by (simp add: allMono_def aud_stream_def)
  have c: "channel_layout (codecpar (aud_stream 1 ''stereo'')) = ''stereo''"
    by (simp add: aud_stream_def)
  show ?thesis
    using m n c
      mono_streams_get_speaker_positions
        [of "[aud_stream 1 ''mono'', aud_stream 2 ''mono'', aud_stream 3 ''mono'']"
            "aud_stream 1 ''mono''" "[aud_stream 2 ''mono'', aud_stream 3 ''mono'']"
            "env_of [] []"]
      mono_streams_get_speaker_positions
        [of "[aud_stream 1 ''stereo'', aud_stream 2 ''mono'']"
            "aud_stream 1 ''stereo''" "[aud_stream 2 ''mono'']" "env_of [] []"]
    by (simp add: audChanNames_def numeral_2_eq_2 numeral_3_eq_3)
qed

section \<open>Properties of initialise\<close>

lemma format_switch_native:
  "format_switch ''yuv422p'' w h = Inr (ToRGBA ''709'' ''709'' (yuv422p8Reader w h), ''yuv422p'')"
  "format_switch ''yuv422p10le'' w h =
     Inr (ToRGBA ''709'' ''709'' (yuv422p10Reader w h), ''yuv422p10le'')"
  "format_switch ''v210'' w h = Inr (ToRGBA ''709'' ''709'' (v210Reader w h), ''v210'')"
  "format_switch ''rgba'' w h = Inr (ToRGBA ''709'' ''709'' (rgba8Reader w h), ''rgba'')"
  "format_switch ''bgra'' w h = Inr (ToRGBA ''709'' ''709'' (bgra8Reader w h), ''bgra'')"
  by (simp_all add: format_switch_def)

lemma format_switch_other:
  assumes "fmt \<notin> set native_formats"
  shows "format_switch fmt w h =
     (if str_includes fmt ''yuv'' then
        Inr (ToRGBA ''709'' ''709'' (yuv422p10Reader w h), ''yuv422p10le'')
      else if str_includes fmt ''rgb'' then
        Inr (ToRGBA ''709'' ''709'' (rgba8Reader w h), ''rgba'')
      else Inl (Error (unsupported_message fmt)))"
  using assms by (simp add: format_switch_def native_formats_def unsupported_message_def)

lemma format_switch_Inl_not_invalid:
  "format_switch fmt w h = Inl err \<Longrightarrow> \<not> instanceof_InvalidProducerError err"
  by (auto simp: format_switch_def split: if_splits)

lemma audio_path_Inl_not_invalid:
  "audio_path e auds = Inl err \<Longrightarrow> \<not> instanceof_InvalidProducerError err"
  by (auto simp: audio_path_def split: list.splits sum.splits dest: lib_Inl_not_invalid)

lemma video_path_Inl_not_invalid:
  "video_path e cp vids = Inl err \<Longrightarrow> \<not> instanceof_InvalidProducerError err"
  by (auto simp: video_path_def Let_def split: list.splits sum.splits prod.splits
           dest: lib_Inl_not_invalid format_switch_Inl_not_invalid)

text \<open>Only a failed open leaves \<open>initialise\<close> as an \<open>InvalidProducerError\<close>.\<close>

lemma initialise_open_fails:
  "open_demuxer e (url (loadParams p)) = Inl m \<Longrightarrow>
   initialise e rp cp p = Inl (InvalidProducerError m)"
  by (simp add: initialise_def)

lemma initialise_Inl_after_open:
  assumes "open_demuxer e (url (loadParams p)) = Inr dm"
    and "initialise e rp cp p = Inl err"
  shows "\<not> instanceof_InvalidProducerError err"
  using assms
  by (auto simp: initialise_def split: sum.splits if_splits prod.splits
           dest: lib_Inl_not_invalid discover_Inl_not_invalid audio_path_Inl_not_invalid
             video_path_Inl_not_invalid)

lemma initialise_no_video:
  assumes o: "open_demuxer e (url (loadParams p)) = Inr dm"
    and nv: "filter is_video (streams dm) = []"
  shows "\<exists>err. initialise e rp cp p = Inl err \<and> \<not> instanceof_InvalidProducerError err \<and>
               (lib_error e = (\<lambda>c. None) \<longrightarrow>
                  err = TypeError ''Cannot read property codecpar of undefined'')"
proof -
  have vp: "video_path e cp [] = Inl (TypeError ''Cannot read property codecpar of undefined'')"
    by (simp add: video_path_def)
  have nov: "videoStreams d = []" if "discover e discovery_init (streams dm) = Inr d" for d
    using discover_videoStreams [OF that] nv by (simp add: discovery_init_def)
  have fails: "\<exists>err. initialise e rp cp p = Inl err"
    using o nov vp
    by (auto simp: initialise_def split: sum.splits prod.splits)
  then obtain err where err: "initialise e rp cp p = Inl err" ..
  have quiet: "err = TypeError ''Cannot read property codecpar of undefined''"
    if q: "lib_error e = (\<lambda>c. None)"
  proof -
    from q have l: "lib e c = Inr ()" for c
      by (simp add: lib_def)
    from q obtain d where d: "discover e discovery_init (streams dm) = Inr d"
      using discover_total [of e discovery_init "streams dm"] by auto
    have ap: "\<exists>sf af. audio_path e (audioStreams d) = Inr (sf, af)"
      by (simp add: audio_path_def l split: list.splits)
    then obtain sf af where "audio_path e (audioStreams d) = Inr (sf, af)" by blast
    with err o d nov [OF d] vp l show ?thesis
      by (simp add: initialise_def split: if_splits)
  qed
  show ?thesis
    using err initialise_Inl_after_open [OF o err] quiet by blast
qed


lemma initialise_with_video:
  assumes o: "open_demuxer e (url lp) = Inr dm"
    and q: "lib_error e = (\<lambda>c. None)"
    and fv: "filter is_video (streams dm) = v # vs"
  shows "(format_switch (format (codecpar v)) (width (codecpar v)) (height (codecpar v)) = Inl err \<longrightarrow>
            initialise e rp cp (createProducer lp) = Inl err) \<and>
         (format_switch (format (codecpar v)) (width (codecpar v)) (height (codecpar v)) =
            Inr (conv, fof) \<longrightarrow>
            (\<exists>p st. initialise e rp cp (createProducer lp) = Inr p \<and> pipes p = Some st \<and>
               toRGBA (video st) = Some conv \<and>
               filterOutputFormat (video st) = fof \<and>
               out_pixelFormat (vidFilterer (video st)) = fof \<and>
               in_pixelFormat (vidFilterer (video st)) = format (codecpar v)))"
proof -
  from q have l: "lib e c = Inr ()" for c
    by (simp add: lib_def)
  from q obtain d where d: "discover e discovery_init (streams dm) = Inr d"
    using discover_total [of e discovery_init "streams dm"] by auto
  have vs: "videoStreams d = [keep v]"
    using discover_videoStreams [OF d] fv by (simp add: discovery_init_def numVidChannels_def)
  have "\<exists>sf af. audio_path e (audioStreams d) = Inr (sf, af)"
    by (simp add: audio_path_def l split: list.splits)
  then obtain sf af where ap: "audio_path e (audioStreams d) = Inr (sf, af)"
    by blast
  have u: "url (loadParams (createProducer lp)) = url lp"
    by (simp add: createProducer_def)
  have k: "codecpar (keep v) = codecpar v"
    by (simp add: keep_def)
  have vp: "video_path e cp [keep v] =
      (case format_switch (format (codecpar v)) (width (codecpar v)) (height (codecpar v)) of
         Inl x \<Rightarrow> Inl x
       | Inr (conv, fof) \<Rightarrow>
           Inr \<lparr>toRGBA = Some conv, filterOutputFormat = fof,
                vidFilterer =
                  \<lparr>in_timeBase = time_base (keep v), in_width = width (codecpar v),
                   in_height = height (codecpar v), in_pixelFormat = format (codecpar v),
                   in_pixelAspect = sample_aspect_ratio (codecpar v), out_pixelFormat = fof,
                   chanTb = videoTimebase cp\<rparr>,
                yadif =
                  Some \<lparr>yadif_width = width (codecpar v), yadif_height = height (codecpar v),
                        yadif_mode = ''send_field'', yadif_parity = ''tff'',
                        yadif_deint = ''all''\<rparr>\<rparr>)"
    by (simp add: video_path_def k l Let_def split: sum.splits prod.splits)
  have ini: "initialise e rp cp (createProducer lp) =
      (case video_path e cp [keep v] of
         Inl x \<Rightarrow> Inl x
       | Inr vd \<Rightarrow>
           Inr ((createProducer lp)
                 \<lparr>demuxer :=
                    Some \<lparr>streams = demuxer_streams d,
                          unread =
                            (case seek (loadParams (createProducer lp)) of
                               None \<Rightarrow> unread dm
                             | Some t \<Rightarrow> if t = 0 then unread dm else rp t (unread dm))\<rparr>,
                  pipes :=
                    Some \<lparr>disc = d, silentFrame = sf, audFilterer = af, video = vd,
                          audSource =
                            (if length (audioStreams d) \<noteq> 0 then Demux else Silence)\<rparr>\<rparr>))"
    using o d vs ap l by (simp add: initialise_def u split: if_splits)
  show ?thesis
    unfolding ini vp by (auto split: sum.splits)
qed

lemma createSource_throws:
  assumes "list_all (\<lambda>f. not_recognized f params cp) pre"
    and "f params cp = Inl err" and "\<not> instanceof_InvalidProducerError err"
  shows "outcome (createSource (pre @ f # fs) params cp) = Inl err \<and>
         tried (createSource (pre @ f # fs) params cp) = [0 ..< Suc (length pre)]"
  unfolding createSource_after_prefix [OF assms(1)] using assms(2,3) by simp

lemma FFmpegProducerFactory_Inl:
  "initialise e rp cp (createProducer lp) = Inl err \<Longrightarrow> FFmpegProducerFactory e rp lp cp = Inl err"
  by (simp add: FFmpegProducerFactory_def)

text \<open>
  C9. When the demuxer opens the source and the source has no video stream,
  \<open>initialise\<close> does not return a producer: it throws, and what it throws is not an
  \<open>InvalidProducerError\<close>. When no library call fails first, it is the \<open>TypeError\<close> of
  reading \<open>codecpar\<close> of \<open>videoStreams[0]\<close>, which is \<open>undefined\<close>. In the registry,
  placed after factories that did not recognise the source, the FFmpeg factory makes
  \<open>createSource\<close> throw that error; no factory registered after it is tried.
\<close>

theorem no_video_stream_is_fatal:
  assumes "open_demuxer e (url lp) = Inr dm"
    and "filter is_video (streams dm) = []"
    and "list_all (\<lambda>f. not_recognized f lp cp) pre"
  shows "\<exists>err. initialise e rp cp (createProducer lp) = Inl err \<and>
           \<not> instanceof_InvalidProducerError err \<and>
           (lib_error e = (\<lambda>c. None) \<longrightarrow>
              err = TypeError ''Cannot read property codecpar of undefined'') \<and>
           outcome (createSource (pre @ FFmpegProducerFactory e rp # fs) lp cp) = Inl err \<and>
           tried (createSource (pre @ FFmpegProducerFactory e rp # fs) lp cp) =
             [0 ..< Suc (length pre)]"
proof -
  have u: "url (loadParams (createProducer lp)) = url lp"
    by (simp add: createProducer_def)
  from initialise_no_video [of e "createProducer lp" dm rp cp] assms(1,2) u
  obtain err where err: "initialise e rp cp (createProducer lp) = Inl err"
    "\<not> instanceof_InvalidProducerError err"
    "lib_error e = (\<lambda>c. None) \<longrightarrow> err = TypeError ''Cannot read property codecpar of undefined''"
    by auto
  show ?thesis
    using err assms(3) FFmpegProducerFactory_Inl [OF err(1)]
      createSource_throws [of lp cp pre "FFmpegProducerFactory e rp" err fs]
    by blast
qed

theorem no_video_stream_is_fatal_witness:
  "outcome (createSource
      (producerFactories macadam_absent (env_of [aud_stream 0 ''stereo''] []) (\<lambda>t ps. ps))
      lp0 cp0) = Inl (TypeError ''Cannot read property codecpar of undefined'') \<and>
   tried (createSource
      (producerFactories macadam_absent (env_of [aud_stream 0 ''stereo''] []) (\<lambda>t ps. ps))
      lp0 cp0) = [0, 1]"
proof -
  have o: "open_demuxer (env_of [aud_stream 0 ''stereo''] []) (url lp0) =
      Inr \<lparr>streams = [aud_stream 0 ''stereo''], unread = []\<rparr>"
    by (simp add: env_of_def)
  have nv: "filter is_video (streams \<lparr>streams = [aud_stream 0 ''stereo''], unread = []\<rparr>) = []"
    by (simp add: is_video_def aud_stream_def)
  have pre: "list_all (\<lambda>f. not_recognized f lp0 cp0) [macadam_absent]"
    by (simp add: not_recognized_def macadam_absent_def)
  have q: "lib_error (env_of [aud_stream 0 ''stereo''] []) = (\<lambda>c. None)"
    by (simp add: env_of_def)
  show ?thesis
    using no_video_stream_is_fatal [OF o nv pre, of "\<lambda>t ps. ps" "[]"] q
    by (auto simp: producerFactories_def)
qed


text \<open>
  C3. For the five native formats the switch selects the reader of that format and
  leaves the filter output format as the stream's. For another format that contains
  \<open>yuv\<close> it selects the 10 bit 4:2:2 reader and sets the filter output format to
  \<open>yuv422p10le\<close>; for one that does not but contains \<open>rgb\<close>, the rgba reader and \<open>rgba\<close>.
  For a format outside both families it throws an error that is not an
  \<open>InvalidProducerError\<close>. With the source open and the library calls succeeding,
  \<open>initialise\<close> takes the format of the first video stream through this switch: it
  returns a producer holding the selected converter, whose video filterer outputs the
  selected format, or it throws the error of the switch; \<open>createSource\<close> then throws it
  too, without trying any factory registered after the FFmpeg one.
\<close>

theorem pixel_format_selection:
  "format_switch ''yuv422p'' w h = Inr (ToRGBA ''709'' ''709'' (yuv422p8Reader w h), ''yuv422p'') \<and>
   format_switch ''yuv422p10le'' w h =
     Inr (ToRGBA ''709'' ''709'' (yuv422p10Reader w h), ''yuv422p10le'') \<and>
   format_switch ''v210'' w h = Inr (ToRGBA ''709'' ''709'' (v210Reader w h), ''v210'') \<and>
   format_switch ''rgba'' w h = Inr (ToRGBA ''709'' ''709'' (rgba8Reader w h), ''rgba'') \<and>
   format_switch ''bgra'' w h = Inr (ToRGBA ''709'' ''709'' (bgra8Reader w h), ''bgra'') \<and>
   (fmt \<notin> set native_formats \<and> str_includes fmt ''yuv'' \<longrightarrow>
      format_switch fmt w h =
        Inr (ToRGBA ''709'' ''709'' (yuv422p10Reader w h), ''yuv422p10le'')) \<and>
   (fmt \<notin> set native_formats \<and> \<not> str_includes fmt ''yuv'' \<and> str_includes fmt ''rgb'' \<longrightarrow>
      format_switch fmt w h = Inr (ToRGBA ''709'' ''709'' (rgba8Reader w h), ''rgba'')) \<and>
   (fmt \<notin> set native_formats \<and> \<not> str_includes fmt ''yuv'' \<and> \<not> str_includes fmt ''rgb'' \<longrightarrow>
      format_switch fmt w h = Inl (Error (unsupported_message fmt)) \<and>
      \<not> instanceof_InvalidProducerError (Error (unsupported_message fmt))) \<and>
   (open_demuxer e (url lp) = Inr dm \<and> lib_error e = (\<lambda>c. None) \<and>
    filter is_video (streams dm) = v # vs \<longrightarrow>
      (format_switch (format (codecpar v)) (width (codecpar v)) (height (codecpar v)) =
         Inr (conv, fof) \<longrightarrow>
         (\<exists>p st. initialise e rp cp (createProducer lp) = Inr p \<and> pipes p = Some st \<and>
            toRGBA (video st) = Some conv \<and>
            filterOutputFormat (video st) = fof \<and>
            out_pixelFormat (vidFilterer (video st)) = fof \<and>
            in_pixelFormat (vidFilterer (video st)) = format (codecpar v))) \<and>
      (format_switch (format (codecpar v)) (width (codecpar v)) (height (codecpar v)) = Inl err \<longrightarrow>
         initialise e rp cp (createProducer lp) = Inl err \<and>
         \<not> instanceof_InvalidProducerError err \<and>
         (list_all (\<lambda>f. not_recognized f lp cp) pre \<longrightarrow>
            outcome (createSource (pre @ FFmpegProducerFactory e rp # fs) lp cp) = Inl err \<and>
            tried (createSource (pre @ FFmpegProducerFactory e rp # fs) lp cp) =
              [0 ..< Suc (length pre)])))"
proof -
  have other: "fmt \<notin> set native_formats \<Longrightarrow> format_switch fmt w h =
     (if str_includes fmt ''yuv'' then
        Inr (ToRGBA ''709'' ''709'' (yuv422p10Reader w h), ''yuv422p10le'')
      else if str_includes fmt ''rgb'' then
        Inr (ToRGBA ''709'' ''709'' (rgba8Reader w h), ''rgba'')
      else Inl (Error (unsupported_message fmt)))"
    by (rule format_switch_other)
  have ini: "open_demuxer e (url lp) = Inr dm \<and> lib_error e = (\<lambda>c. None) \<and>
    filter is_video (streams dm) = v # vs \<longrightarrow>
      (format_switch (format (codecpar v)) (width (codecpar v)) (height (codecpar v)) =
         Inr (conv, fof) \<longrightarrow>
         (\<exists>p st. initialise e rp cp (createProducer lp) = Inr p \<and> pipes p = Some st \<and>
            toRGBA (video st) = Some conv \<and>
            filterOutputFormat (video st) = fof \<and>
            out_pixelFormat (vidFilterer (video st)) = fof \<and>
            in_pixelFormat (vidFilterer (video st)) = format (codecpar v))) \<and>
      (format_switch (format (codecpar v)) (width (codecpar v)) (height (codecpar v)) = Inl err \<longrightarrow>
         initialise e rp cp (createProducer lp) = Inl err \<and>
         \<not> instanceof_InvalidProducerError err \<and>
         (list_all (\<lambda>f. not_recognized f lp cp) pre \<longrightarrow>
            outcome (createSource (pre @ FFmpegProducerFactory e rp # fs) lp cp) = Inl err \<and>
            tried (createSource (pre @ FFmpegProducerFactory e rp # fs) lp cp) =
              [0 ..< Suc (length pre)]))"
  proof (intro impI, elim conjE)
    assume o: "open_demuxer e (url lp) = Inr dm" and q: "lib_error e = (\<lambda>c. None)"
      and fv: "filter is_video (streams dm) = v # vs"
    note w = initialise_with_video [OF o q fv, of err rp cp conv fof]
    have bad: "initialise e rp cp (createProducer lp) = Inl err \<and>
         \<not> instanceof_InvalidProducerError err \<and>
         (list_all (\<lambda>f. not_recognized f lp cp) pre \<longrightarrow>
            outcome (createSource (pre @ FFmpegProducerFactory e rp # fs) lp cp) = Inl err \<and>
            tried (createSource (pre @ FFmpegProducerFactory e rp # fs) lp cp) =
              [0 ..< Suc (length pre)])"
      if f: "format_switch (format (codecpar v)) (width (codecpar v)) (height (codecpar v)) = Inl err"
    proof -
      from w f have i: "initialise e rp cp (createProducer lp) = Inl err" by blast
      have n: "\<not> instanceof_InvalidProducerError err"
        using f by (rule format_switch_Inl_not_invalid)
      show ?thesis
        using i n FFmpegProducerFactory_Inl [OF i]
          createSource_throws [of lp cp pre "FFmpegProducerFactory e rp" err fs]
        by blast
    qed
    show "(format_switch (format (codecpar v)) (width (codecpar v)) (height (codecpar v)) =
         Inr (conv, fof) \<longrightarrow>
         (\<exists>p st. initialise e rp cp (createProducer lp) = Inr p \<and> pipes p = Some st \<and>
            toRGBA (video st) = Some conv \<and>
            filterOutputFormat (video st) = fof \<and>
            out_pixelFormat (vidFilterer (video st)) = fof \<and>
            in_pixelFormat (vidFilterer (video st)) = format (codecpar v))) \<and>
      (format_switch (format (codecpar v)) (width (codecpar v)) (height (codecpar v)) = Inl err \<longrightarrow>
         initialise e rp cp (createProducer lp) = Inl err \<and>
         \<not> instanceof_InvalidProducerError err \<and>
         (list_all (\<lambda>f. not_recognized f lp cp) pre \<longrightarrow>
            outcome (createSource (pre @ FFmpegProducerFactory e rp # fs) lp cp) = Inl err \<and>
            tried (createSource (pre @ FFmpegProducerFactory e rp # fs) lp cp) =
              [0 ..< Suc (length pre)]))"
      using w bad by blast
  qed
  show ?thesis
    using format_switch_native [of w h] other ini by simp
qed

theorem pixel_format_selection_witness:
  "format_switch ''yuv420p'' 1920 1080 =
     Inr (ToRGBA ''709'' ''709'' (yuv422p10Reader 1920 1080), ''yuv422p10le'') \<and>
   format_switch ''rgb24'' 1920 1080 =
     Inr (ToRGBA ''709'' ''709'' (rgba8Reader 1920 1080), ''rgba'') \<and>
   format_switch ''gray'' 1920 1080 = Inl (Error (unsupported_message ''gray'')) \<and>
   outcome (createSource
      [FFmpegProducerFactory (env_of [vid_stream 0 ''gray''] []) (\<lambda>t ps. ps), macadam_present]
      lp0 cp0) = Inl (Error (unsupported_message ''gray'')) \<and>
   tried (createSource
      [FFmpegProducerFactory (env_of [vid_stream 0 ''gray''] []) (\<lambda>t ps. ps), macadam_present]
      lp0 cp0) = [0]"
proof -
  have n1: "''yuv420p'' \<notin> set native_formats \<and> str_includes ''yuv420p'' ''yuv''"
    by (simp add: native_formats_def)
  have n2: "''rgb24'' \<notin> set native_formats \<and> \<not> str_includes ''rgb24'' ''yuv'' \<and>
      str_includes ''rgb24'' ''rgb''"
    by (simp add: native_formats_def)
  have n3: "''gray'' \<notin> set native_formats \<and> \<not> str_includes ''gray'' ''yuv'' \<and>
      \<not> str_includes ''gray'' ''rgb''"
    by (simp add: native_formats_def)
  have o: "open_demuxer (env_of [vid_stream 0 ''gray''] []) (url lp0) =
      Inr \<lparr>streams = [vid_stream 0 ''gray''], unread = []\<rparr>"
    and q: "lib_error (env_of [vid_stream 0 ''gray''] []) = (\<lambda>c. None)"
    by (simp_all add: env_of_def)
  have fv: "filter is_video (streams \<lparr>streams = [vid_stream 0 ''gray''], unread = []\<rparr>) =
      vid_stream 0 ''gray'' # []"
    by (simp add: is_video_def vid_stream_def)
  have g: "format (codecpar (vid_stream 0 ''gray'')) = ''gray''"
    "width (codecpar (vid_stream 0 ''gray'')) = 1920"
    "height (codecpar (vid_stream 0 ''gray'')) = 1080"
    by (simp_all add: vid_stream_def)
  have pre: "list_all (\<lambda>f. not_recognized f lp0 cp0) ([] :: unit producer factory list)"
    by simp
  note a = pixel_format_selection [where fmt = "''yuv420p''" and w = 1920 and h = 1080]
  note b = pixel_format_selection [where fmt = "''rgb24''" and w = 1920 and h = 1080]
  note c = pixel_format_selection
    [where fmt = "''gray''" and w = 1920 and h = 1080
       and e = "env_of [vid_stream 0 ''gray''] []" and lp = lp0
       and dm = "\<lparr>streams = [vid_stream 0 ''gray''], unread = []\<rparr>"
       and v = "vid_stream 0 ''gray''" and vs = "[]"
       and err = "Error (unsupported_message ''gray'')"
       and rp = "\<lambda>t ps. ps" and cp = cp0 and pre = "[]" and fs = "[macadam_present]"]
  have f1: "format_switch ''yuv420p'' 1920 1080 =
     Inr (ToRGBA ''709'' ''709'' (yuv422p10Reader 1920 1080), ''yuv422p10le'')"
    using a n1 by blast
  have f2: "format_switch ''rgb24'' 1920 1080 =
     Inr (ToRGBA ''709'' ''709'' (rgba8Reader 1920 1080), ''rgba'')"
    using b n2 by blast
  have f3: "format_switch ''gray'' 1920 1080 = Inl (Error (unsupported_message ''gray''))"
    using c n3 by blast
  have f4: "outcome (createSource
      ([] @ FFmpegProducerFactory (env_of [vid_stream 0 ''gray''] []) (\<lambda>t ps. ps) # [macadam_present])
      lp0 cp0) = Inl (Error (unsupported_message ''gray'')) \<and>
    tried (createSource
      ([] @ FFmpegProducerFactory (env_of [vid_stream 0 ''gray''] []) (\<lambda>t ps. ps) # [macadam_present])
      lp0 cp0) = [0 ..< Suc (length ([] :: unit producer factory list))]"
    using c o q fv f3 pre unfolding g by blast
  show ?thesis
    using f1 f2 f3 f4 by simp
qed

section \<open>Properties of release and of the silent audio leg\<close>

lemma release_idempotent: "release (release p) = release p"
  by (simp add: release_def)

lemma release_only_running:
  "running (release p) = False \<and> demuxer (release p) = demuxer p \<and>
   paused (release p) = paused p \<and> pipes (release p) = pipes p \<and>
   loadParams (release p) = loadParams p"
  by (simp add: release_def)

lemma demux_after_release:
  "result (fst (demux d (release p))) = RedioEnd \<and> demuxer (snd (demux d (release p))) = None"
  by (simp add: demux_def release_def split: option.splits)

lemma demux_while_running:
  "demuxer p = Some dm \<Longrightarrow> running p \<Longrightarrow>
   fst (demux d p) = demux_loop d demux_start (unread dm)"
  by (simp add: demux_def Let_def)

lemma silence_ignores_release:
  "silence st (release p) = silence st p \<and> silence st p \<noteq> RedioEnd"
  by (simp add: silence_def)

lemma silent_frame_layout:
  "nb_samples silent_frame = 1024 \<and> frame_format silent_frame = ''s32'' \<and>
   frame_sample_rate silent_frame = 48000 \<and> channels silent_frame = 8 \<and>
   frame_channel_layout silent_frame = ''8c'' \<and> data silent_frame = [Buffer_alloc 32768]"
  by (simp add: silent_frame_def numAudChannels_def audLayout_def)

text \<open>
  For every source without an audio stream that \<open>initialise\<close> accepts, the audio leg is
  headed by \<open>silence\<close> over the silent frame and the pass-through filterer; and whatever
  the filterer answers, that leg never returns the end marker, released or not.
\<close>

lemma initialise_without_audio:
  assumes i: "initialise e rp cp p0 = Inr p"
    and o: "open_demuxer e (url (loadParams p0)) = Inr dm"
    and na: "filter is_audio (streams dm) = []"
  shows "\<exists>st. pipes p = Some st \<and> audSource st = Silence \<and>
           silentFrame st = Some silent_frame \<and> audFilterer st = silence_filterer"
proof -
  from i o obtain d sf af v where d: "discover e discovery_init (streams dm) = Inr d"
    and ap: "audio_path e (audioStreams d) = Inr (sf, af)"
    and p: "pipes p = Some \<lparr>disc = d, silentFrame = sf, audFilterer = af, video = v,
              audSource = (if length (audioStreams d) \<noteq> 0 then Demux else Silence)\<rparr>"
    by (auto simp: initialise_def split: sum.splits prod.splits)
  have e: "audioStreams d = []"
    using discover_audioStreams [OF d] na by (simp add: discovery_init_def)
  from ap e have "sf = Some silent_frame \<and> af = silence_filterer"
    by (auto simp: audio_path_def split: sum.splits)
  with p e show ?thesis by simp
qed

lemma silent_audSource_never_ends:
  "silent_audSource filt st (release p) = silent_audSource filt st p \<and>
   silent_audSource filt st p \<noteq> RedioEnd"
  by (simp add: silent_audSource_def silence_def audFilter_def Let_def)

lemma opened_video_only:
  "\<exists>p st. opened video_only lp0 cp0 = Some (p, st) \<and> running p \<and>
     audioStreams (disc st) = [] \<and> audSource st = Silence \<and>
     silentFrame st = Some silent_frame \<and> audFilterer st = silence_filterer"
  by (simp add: opened_def initialise_def createProducer_def video_only_def env_of_def lp0_def
      js_not_def discover_step_def discovery_init_def lib_def vid_stream_def numAudChannels_def
      numVidChannels_def Let_def audio_path_def video_path_def format_switch_def)

text \<open>
  C5, at a source with one video stream and no audio stream. \<open>initialise\<close> returns a
  producer whose audio leg is headed by the \<open>silence\<close> generator over the silent frame
  (1024 samples, s32, 48000 Hz, 8 channels, see \<open>silent_frame_layout\<close>). After
  \<open>release()\<close> the running flag is false, and a pull on the audio leg still yields the
  silent frame: the generator never reads the flag, so the leg does not stop at
  \<open>release()\<close>.
\<close>

theorem silent_leg_outlives_release:
  "\<exists>p st. opened video_only lp0 cp0 = Some (p, st) \<and>
     audSource st = Silence \<and>
     silentFrame st = Some silent_frame \<and>
     \<not> running (release p) \<and>
     silent_audSource pass_through st (release p) = Value [silent_frame]"
proof -
  from opened_video_only obtain p st where o: "opened video_only lp0 cp0 = Some (p, st)"
    "audSource st = Silence" "silentFrame st = Some silent_frame"
    by blast
  have "silent_audSource pass_through st (release p) = Value [silent_frame]"
    using o(3) by (simp add: silent_audSource_def silence_def audFilter_def pass_through_def)
  with o show ?thesis
    by (auto simp: release_def)
qed

text \<open>
  C6, at the same source. \<open>release()\<close> is idempotent and the next call of \<open>demux\<close> returns
  the end marker, which ends the video leg; the \<open>silence\<close> generator, called after that
  on the producer \<open>demux\<close> left, still returns its group, and the audio leg still forwards
  a frame.
\<close>

theorem release_stops_video_leg_only:
  "\<exists>p st. opened video_only lp0 cp0 = Some (p, st) \<and>
     release (release p) = release p \<and>
     result (fst (demux (disc st) (release p))) = RedioEnd \<and>
     silence st (snd (demux (disc st) (release p))) =
       Value [\<lparr>chan_name = ''in0:a'', frames = [Some silent_frame]\<rparr>] \<and>
     forwarded (silent_audSource pass_through st (snd (demux (disc st) (release p)))) =
       [silent_frame]"
proof -
  from opened_video_only obtain p st where o: "opened video_only lp0 cp0 = Some (p, st)"
    "silentFrame st = Some silent_frame"
    by blast
  have s: "silence st q = Value [\<lparr>chan_name = ''in0:a'', frames = [Some silent_frame]\<rparr>]" for q
    using o(2) by (simp add: silence_def)
  have f: "forwarded (silent_audSource pass_through st q) = [silent_frame]" for q
    by (simp add: silent_audSource_def s audFilter_def pass_through_def)
  show ?thesis
    using o(1) release_idempotent [of p] demux_after_release [of "disc st" p] s f by blast
qed

section \<open>Properties of the deinterlace stage\<close>

lemma vidDeint_value:
  "vidDeint processFrame (Some y) (Value frame) =
     \<lparr>out = (if length (fst (processFrame y frame)) > 1
             then Value (fst (processFrame y frame)) else RedioNil),
      input_after = Some (frame\<lparr>released := True\<rparr>),
      yadif_after = Some (snd (processFrame y frame)),
      yadif_released = False\<rparr>"
  by (simp add: vidDeint_def split: prod.splits)

lemma vidDeint_forwards_unless_single:
  "length (fst (processFrame y frame)) \<noteq> 1 \<Longrightarrow>
   forwarded (out (vidDeint processFrame (Some y) (Value frame))) = fst (processFrame y frame)"
  by (cases "fst (processFrame y frame)") (simp_all add: vidDeint_value)

lemma vidDeint_out_count:
  "length (fst (processFrame y frame)) \<le> 2 \<Longrightarrow>
   length (forwarded (out (vidDeint processFrame (Some y) (Value frame)))) \<in> {0, 2}"
  by (auto simp: vidDeint_value)

lemma vidDeint_releases_input:
  "input_after (vidDeint processFrame y (Value frame)) = Some (frame\<lparr>released := True\<rparr>)"
  by (simp add: vidDeint_def split: prod.splits option.splits)

lemma vidDeint_end:
  "out (vidDeint processFrame y RedioEnd) = RedioEnd \<and>
   yadif_after (vidDeint processFrame y RedioEnd) = None \<and>
   yadif_released (vidDeint processFrame y RedioEnd) = (y \<noteq> None)"
  by (simp add: vidDeint_def)

text \<open>
  C4, at a frame for which the deinterlacer pushes exactly one buffer onto the list: the
  stage returns \<open>nil\<close>, so nothing is forwarded, the pushed buffer included; the input
  buffer is released. (\<open>vidDeint_forwards_unless_single\<close>: with no buffer or with two,
  the stage forwards what was pushed.)
\<close>

theorem vidDeint_drops_single_buffer:
  "fst (one_field () (buf 40)) = [buf 40] \<and>
   out (vidDeint one_field (Some ()) (Value (buf 40))) = RedioNil \<and>
   forwarded (out (vidDeint one_field (Some ()) (Value (buf 40)))) = [] \<and>
   input_after (vidDeint one_field (Some ()) (Value (buf 40))) = Some ((buf 40)\<lparr>released := True\<rparr>)"
  by (simp add: vidDeint_value one_field_def buf_def)

end
